theory Spec2Isabelle
  imports Main "HOL-Library.Sublist"
begin

section \<open>Python values\<close>

text \<open>
  The request body is a \<^verbatim>\<open>bytes\<close> object: a list of octets, written as an Isabelle
  string (whose characters are octets). A Python \<^verbatim>\<open>str\<close> is a list of Unicode code
  points, so that \<^verbatim>\<open>len\<close>, \<^verbatim>\<open>split\<close>, \<^verbatim>\<open>in\<close> and \<^verbatim>\<open>upper\<close> count what Python counts.
  \<open>ascii\<close> reads an ASCII literal of the source as a \<^verbatim>\<open>str\<close>.
\<close>

type_synonym bytes = "char list"
type_synonym pystr = "nat list"

definition ascii :: "string \<Rightarrow> pystr" where
  "ascii s = map of_char s"

text \<open>
  What \<^verbatim>\<open>json.loads\<close> returns: \<^verbatim>\<open>None\<close>, \<^verbatim>\<open>bool\<close>, \<^verbatim>\<open>int\<close> (unbounded), \<^verbatim>\<open>float\<close>,
  \<^verbatim>\<open>str\<close>, \<^verbatim>\<open>list\<close> and \<^verbatim>\<open>dict\<close> with \<^verbatim>\<open>str\<close> keys. A float is kept as the literal
  that denotes it (\<^verbatim>\<open>1.5e3\<close>, \<^verbatim>\<open>NaN\<close>): no function of this program computes with
  one. A dict is an association list in insertion order with distinct keys.
\<close>

datatype pyobj =
    PyNone
  | PyBool bool
  | PyInt int
  | PyFloat pystr
  | PyStr pystr
  | PyList "pyobj list"
  | PyDict "(pystr \<times> pyobj) list"

text \<open>
  The exceptions this program meets. A pydantic \<^verbatim>\<open>ValidationError\<close> carries one entry
  per failing field: its location and the kind of failure.
\<close>

datatype field_error = Missing | Int_invalid | String_invalid | Model_invalid

datatype exn =
    UnicodeDecodeError
  | UnicodeEncodeError
  | JSONDecodeError
  | RecursionError
  | ValueError
  | TypeError
  | AttributeError string
  | ValidationError "(pystr list \<times> field_error) list"
  | PydanticSerializationError

text \<open>The outcome of \<^verbatim>\<open>requests.post\<close>: a response with its status code and content,
  or an exception of the \<^verbatim>\<open>RequestException\<close> family (connection error, timeout).\<close>

datatype post_result = Response nat bytes | RequestException

section \<open>The world outside the repository\<close>

text \<open>
  Everything the program reads that its source does not fix is a field of \<open>world\<close>:
  the process environment (after \<^verbatim>\<open>load_dotenv\<close>), the messaging endpoint, and the
  parts of the Python runtime and of its libraries that are tables or settings:
  the Unicode database beyond ASCII (\<^verbatim>\<open>isspace\<close>, decimal digit values, upper-casing),
  \<^verbatim>\<open>sys.get_int_max_str_digits()\<close> (0 means no limit, as before Python 3.11), the
  nesting depth at which the JSON scanner raises \<^verbatim>\<open>RecursionError\<close>, pydantic's
  lax-mode conversion to \<^verbatim>\<open>int\<close> of an input that is not an \<^verbatim>\<open>int\<close>, the text
  \<^verbatim>\<open>str(e)\<close> of an exception, and the HMAC-SHA256 digest (key, then message).
  The theorems hold for every world.
\<close>

record world =
  environ :: "string \<Rightarrow> pystr option"
  http_post :: "pystr \<Rightarrow> pyobj \<Rightarrow> post_result"
  uni_isspace :: "nat \<Rightarrow> bool"
  uni_decimal :: "nat \<Rightarrow> nat option"
  uni_upper :: "nat \<Rightarrow> pystr"
  int_max_str_digits :: nat
  json_depth_limit :: nat
  lax_int :: "pyobj \<Rightarrow> int option"
  exn_str :: "exn \<Rightarrow> pystr"
  hmac_sha256 :: "bytes \<Rightarrow> bytes \<Rightarrow> bytes"

section \<open>Built-in operations on \<^verbatim>\<open>bytes\<close>, \<^verbatim>\<open>str\<close> and \<^verbatim>\<open>int\<close>\<close>

subsection \<open>\<^verbatim>\<open>bytes.decode()\<close>: strict UTF-8\<close>

definition cont :: "nat \<Rightarrow> bool" where
  "cont b \<longleftrightarrow> 128 \<le> b \<and> b < 192"

fun utf8 :: "nat list \<Rightarrow> pystr option" where
  "utf8 [] = Some []"
| "utf8 (b0 # bs) =
     (if b0 < 128 then map_option ((#) b0) (utf8 bs)
      else if 194 \<le> b0 \<and> b0 < 224 then
        (case bs of
           b1 # r \<Rightarrow>
             if cont b1
             then map_option ((#) ((b0 - 192) * 64 + (b1 - 128))) (utf8 r)
             else None
         | _ \<Rightarrow> None)
      else if 224 \<le> b0 \<and> b0 < 240 then
        (case bs of
           b1 # b2 # r \<Rightarrow>
             if cont b1 \<and> cont b2 \<and> (b0 = 224 \<longrightarrow> 160 \<le> b1) \<and> (b0 = 237 \<longrightarrow> b1 < 160)
             then map_option ((#) ((b0 - 224) * 4096 + (b1 - 128) * 64 + (b2 - 128))) (utf8 r)
             else None
         | _ \<Rightarrow> None)
      else if 240 \<le> b0 \<and> b0 < 245 then
        (case bs of
           b1 # b2 # b3 # r \<Rightarrow>
             if cont b1 \<and> cont b2 \<and> cont b3 \<and> (b0 = 240 \<longrightarrow> 144 \<le> b1) \<and> (b0 = 244 \<longrightarrow> b1 < 144)
             then map_option
               ((#) ((b0 - 240) * 262144 + (b1 - 128) * 4096 + (b2 - 128) * 64 + (b3 - 128)))
               (utf8 r)
             else None
         | _ \<Rightarrow> None)
      else None)"

definition decode :: "bytes \<Rightarrow> exn + pystr" where
  "decode raw = (case utf8 (map of_char raw) of None \<Rightarrow> Inl UnicodeDecodeError | Some s \<Rightarrow> Inr s)"

subsection \<open>\<^verbatim>\<open>str.encode("utf-8")\<close>\<close>

definition encode_cp :: "nat \<Rightarrow> nat list option" where
  "encode_cp c =
     (if c < 128 then Some [c]
      else if c < 2048 then Some [192 + c div 64, 128 + c mod 64]
      else if 55296 \<le> c \<and> c < 57344 then None
      else if c < 65536 then Some [224 + c div 4096, 128 + c div 64 mod 64, 128 + c mod 64]
      else if c < 1114112 then
        Some [240 + c div 262144, 128 + c div 4096 mod 64, 128 + c div 64 mod 64, 128 + c mod 64]
      else None)"

fun encode_utf8 :: "pystr \<Rightarrow> nat list option" where
  "encode_utf8 [] = Some []"
| "encode_utf8 (c # cs) =
     (case encode_cp c of
        None \<Rightarrow> None
      | Some bs \<Rightarrow> map_option ((@) bs) (encode_utf8 cs))"

definition encode :: "pystr \<Rightarrow> exn + bytes" where
  "encode s = (case encode_utf8 s of None \<Rightarrow> Inl UnicodeEncodeError | Some bs \<Rightarrow> Inr (map char_of bs))"

subsection \<open>\<^verbatim>\<open>sep in s\<close> and \<^verbatim>\<open>s.split(sep)\<close>\<close>

fun is_in :: "pystr \<Rightarrow> pystr \<Rightarrow> bool" where
  "is_in sep [] = (sep = [])"
| "is_in sep (c # cs) = (prefix sep (c # cs) \<or> is_in sep cs)"

text \<open>
  \<^verbatim>\<open>s.split(sep)\<close> scans from the left and cuts at every occurrence of \<open>sep\<close> that
  does not overlap the one before; \<open>acc\<close> is the piece being read, reversed. An empty
  separator raises \<^verbatim>\<open>ValueError\<close>.
\<close>

function split_from :: "pystr \<Rightarrow> pystr \<Rightarrow> pystr \<Rightarrow> pystr list" where
  "split_from sep acc [] = [rev acc]"
| "split_from sep acc (c # cs) =
     (if sep \<noteq> [] \<and> prefix sep (c # cs)
      then rev acc # split_from sep [] (drop (length sep) (c # cs))
      else split_from sep (c # acc) cs)"
  by pat_completeness auto
termination
  by (relation "measure (\<lambda>(sep, acc, s). length s)") (auto simp: neq_Nil_conv)

definition split :: "pystr \<Rightarrow> pystr \<Rightarrow> exn + pystr list" where
  "split s sep = (if sep = [] then Inl ValueError else Inr (split_from sep [] s))"

subsection \<open>\<^verbatim>\<open>int(s)\<close>\<close>

text \<open>
  CPython first maps the string to ASCII: a code point below 127 stays, any other one
  becomes a space if it is Unicode whitespace, its digit if it is a Unicode decimal
  digit, and otherwise ends the string with a \<^verbatim>\<open>?\<close>, which no number contains.
\<close>

fun to_ascii :: "world \<Rightarrow> pystr \<Rightarrow> pystr" where
  "to_ascii w [] = []"
| "to_ascii w (c # cs) =
     (if c < 127 then c # to_ascii w cs
      else if uni_isspace w c then 32 # to_ascii w cs
      else (case uni_decimal w c of
              Some d \<Rightarrow> (if d < 10 then (48 + d) # to_ascii w cs else [63])
            | None \<Rightarrow> [63]))"

definition c_isspace :: "nat \<Rightarrow> bool" where
  "c_isspace c \<longleftrightarrow> c = 32 \<or> (9 \<le> c \<and> c \<le> 13)"

definition is_digit :: "nat \<Rightarrow> bool" where
  "is_digit c \<longleftrightarrow> 48 \<le> c \<and> c \<le> 57"

text \<open>
  The digits of a base-10 literal: single underscores may stand between digits, not
  first, not last, not doubled. \<open>scan_digits prev n k s\<close> reads \<open>s\<close> with the value \<open>n\<close>
  and the digit count \<open>k\<close> so far, \<open>prev\<close> telling whether the last character was an
  underscore; it returns the value, the count and the rest, or nothing when an
  underscore is misplaced.
\<close>

fun scan_digits :: "bool \<Rightarrow> nat \<Rightarrow> nat \<Rightarrow> pystr \<Rightarrow> (nat \<times> nat \<times> pystr) option" where
  "scan_digits prev n k [] = (if prev then None else Some (n, k, []))"
| "scan_digits prev n k (c # cs) =
     (if is_digit c then scan_digits False (10 * n + (c - 48)) (Suc k) cs
      else if c = 95 then (if prev then None else scan_digits True n k cs)
      else if prev then None else Some (n, k, c # cs))"

text \<open>The limit on the digits of an integer literal (0: no limit); CPython checks it
  on literals of more than 640 digits.\<close>

definition too_many_digits :: "nat \<Rightarrow> nat \<Rightarrow> bool" where
  "too_many_digits lim k \<longleftrightarrow> 0 < lim \<and> 640 < k \<and> lim < k"

definition py_int :: "world \<Rightarrow> pystr \<Rightarrow> exn + int" where
  "py_int w s =
     (let t = dropWhile c_isspace (to_ascii w s);
          neg = (case t of c # _ \<Rightarrow> c = 45 | [] \<Rightarrow> False);
          u = (case t of c # r \<Rightarrow> if c = 43 \<or> c = 45 then r else t | [] \<Rightarrow> t)
      in case u of
           [] \<Rightarrow> Inl ValueError
         | c # _ \<Rightarrow>
             if c = 95 then Inl ValueError
             else (case scan_digits False 0 0 u of
                     None \<Rightarrow> Inl ValueError
                   | Some (n, k, rest) \<Rightarrow>
                       if k = 0 \<or> dropWhile c_isspace rest \<noteq> [] \<or> too_many_digits (int_max_str_digits w) k
                       then Inl ValueError
                       else Inr (if neg then - int n else int n)))"

subsection \<open>\<^verbatim>\<open>str(n)\<close> and \<^verbatim>\<open>s.upper()\<close>\<close>

fun digits :: "nat \<Rightarrow> pystr" where
  "digits n = (if n < 10 then [48 + n] else digits (n div 10) @ [48 + n mod 10])"

definition str_int :: "int \<Rightarrow> pystr" where
  "str_int i = (if i < 0 then 45 # digits (nat (- i)) else digits (nat i))"

definition upper_cp :: "world \<Rightarrow> nat \<Rightarrow> pystr" where
  "upper_cp w c =
     (if 97 \<le> c \<and> c \<le> 122 then [c - 32] else if c < 128 then [c] else uni_upper w c)"

definition upper :: "world \<Rightarrow> pystr \<Rightarrow> pystr" where
  "upper w s = concat (map (upper_cp w) s)"

section \<open>\<^verbatim>\<open>json.loads\<close>\<close>

text \<open>
  The standard library's decoder, as its scanner reads a \<^verbatim>\<open>str\<close>: every syntax error
  is a \<^verbatim>\<open>JSONDecodeError\<close>; an integer literal with more digits than the runtime's
  limit raises \<^verbatim>\<open>ValueError\<close>, and containers nested deeper than the runtime allows
  raise \<^verbatim>\<open>RecursionError\<close>, neither of which is a \<^verbatim>\<open>JSONDecodeError\<close>.
\<close>

definition is_ws :: "nat \<Rightarrow> bool" where
  "is_ws c \<longleftrightarrow> c = 32 \<or> c = 9 \<or> c = 10 \<or> c = 13"

definition skip_ws :: "pystr \<Rightarrow> pystr" where
  "skip_ws s = dropWhile is_ws s"

definition hex_digit :: "nat \<Rightarrow> nat option" where
  "hex_digit c =
     (if 48 \<le> c \<and> c \<le> 57 then Some (c - 48)
      else if 65 \<le> c \<and> c \<le> 70 then Some (c - 55)
      else if 97 \<le> c \<and> c \<le> 102 then Some (c - 87)
      else None)"

definition hex4 :: "nat \<Rightarrow> nat \<Rightarrow> nat \<Rightarrow> nat \<Rightarrow> nat option" where
  "hex4 a b c d =
     (case hex_digit a of None \<Rightarrow> None | Some x \<Rightarrow>
      case hex_digit b of None \<Rightarrow> None | Some y \<Rightarrow>
      case hex_digit c of None \<Rightarrow> None | Some z \<Rightarrow>
      case hex_digit d of None \<Rightarrow> None | Some t \<Rightarrow>
        Some (((x * 16 + y) * 16 + z) * 16 + t))"

text \<open>The one-character escapes: \<^verbatim>\<open>" \ / b f n r t\<close>.\<close>

definition unescape :: "nat \<Rightarrow> nat option" where
  "unescape e =
     (if e = 34 then Some 34 else if e = 92 then Some 92 else if e = 47 then Some 47
      else if e = 98 then Some 8 else if e = 102 then Some 12 else if e = 110 then Some 10
      else if e = 114 then Some 13 else if e = 116 then Some 9 else None)"

text \<open>
  What follows a backslash. \<open>uXXXX\<close> reads the letter \<^verbatim>\<open>u\<close> and four hex digits;
  \<open>low_surrogate\<close> reads a whole \<^verbatim>\<open>\uXXXX\<close> escape whose value is a low surrogate.
  \<open>escape\<close> returns the code point of one escape and the rest of the text: the escape
  of a high surrogate followed by the escape of a low surrogate is one code point; a
  surrogate with no partner stays as it is.
\<close>

definition uXXXX :: "pystr \<Rightarrow> (nat \<times> pystr) option" where
  "uXXXX s =
     (case s of
        l # h1 # h2 # h3 # h4 # r \<Rightarrow>
          if l = 117 then map_option (\<lambda>u. (u, r)) (hex4 h1 h2 h3 h4) else None
      | _ \<Rightarrow> None)"

definition low_surrogate :: "pystr \<Rightarrow> (nat \<times> pystr) option" where
  "low_surrogate s =
     (case s of
        b # r \<Rightarrow>
          if b = 92 then
            (case uXXXX r of
               Some (v, r2) \<Rightarrow> if 56320 \<le> v \<and> v < 57344 then Some (v, r2) else None
             | None \<Rightarrow> None)
          else None
      | [] \<Rightarrow> None)"

definition escape :: "pystr \<Rightarrow> (nat \<times> pystr) option" where
  "escape s =
     (case s of
        [] \<Rightarrow> None
      | e # r \<Rightarrow>
          if e \<noteq> 117 then map_option (\<lambda>x. (x, r)) (unescape e)
          else
            (case uXXXX s of
               None \<Rightarrow> None
             | Some (u, r1) \<Rightarrow>
                 if 55296 \<le> u \<and> u < 56320 then
                   (case low_surrogate r1 of
                      Some (v, r2) \<Rightarrow> Some (65536 + (u - 55296) * 1024 + (v - 56320), r2)
                    | None \<Rightarrow> Some (u, r1))
                 else Some (u, r1)))"

lemma uXXXX_shorter: "uXXXX s = Some (u, r) \<Longrightarrow> length r < length s"
  by (auto simp: uXXXX_def split: list.splits if_splits)

lemma low_surrogate_shorter: "low_surrogate s = Some (u, r) \<Longrightarrow> length r < length s"
  by (auto simp: low_surrogate_def split: list.splits if_splits option.splits dest: uXXXX_shorter)

lemma escape_shorter:
  assumes "escape s = Some (u, r)"
  shows "length r < length s"
proof (cases s)
  case Nil
  with assms show ?thesis by (simp add: escape_def)
next
  case (Cons e t)
  show ?thesis
  proof (cases "e = 117")
    case False
    with assms Cons show ?thesis by (auto simp: escape_def)
  next
    case True
    with assms Cons obtain v r1 where x: "uXXXX s = Some (v, r1)"
      by (auto simp: escape_def split: option.splits)
    from uXXXX_shorter [OF x] have l1: "length r1 < length s" .
    show ?thesis
    proof (cases "low_surrogate r1")
      case None
      with assms Cons True x have "r = r1" by (auto simp: escape_def split: if_splits)
      with l1 show ?thesis by simp
    next
      case (Some p)
      obtain w r2 where p: "p = (w, r2)" by (cases p)
      from low_surrogate_shorter [of r1 w r2] Some p have "length r2 < length r1" by simp
      moreover from assms Cons True x Some p have "r = r1 \<or> r = r2"
        by (auto simp: escape_def split: if_splits)
      ultimately show ?thesis using l1 by auto
    qed
  qed
qed

text \<open>
  \<open>scan_string acc s\<close> reads a string after its opening quote, up to the closing one,
  and returns it with the rest of the text. A control character is refused.
\<close>

function scan_string :: "pystr \<Rightarrow> pystr \<Rightarrow> exn + (pystr \<times> pystr)" where
  "scan_string acc [] = Inl JSONDecodeError"
| "scan_string acc (c # cs) =
     (if c = 34 then Inr (rev acc, cs)
      else if c < 32 then Inl JSONDecodeError
      else if c \<noteq> 92 then scan_string (c # acc) cs
      else (case escape cs of
              None \<Rightarrow> Inl JSONDecodeError
            | Some (u, r) \<Rightarrow> scan_string (u # acc) r))"
  by pat_completeness auto
termination
  by (relation "measure (\<lambda>(acc, s). length s)") (auto dest: escape_shorter)

definition digits_value :: "pystr \<Rightarrow> nat" where
  "digits_value ds = foldl (\<lambda>n c. 10 * n + (c - 48)) 0 ds"

text \<open>
  A number: an optional minus, then \<^verbatim>\<open>0\<close> or a digit string that does not start with
  \<^verbatim>\<open>0\<close>, then an optional fraction (a point and digits) and an optional exponent; an
  \<^verbatim>\<open>e\<close> with no digits after it is left unread. With a fraction or an exponent the
  value is a float, otherwise an \<^verbatim>\<open>int\<close>.
\<close>

definition fraction :: "pystr \<Rightarrow> pystr \<times> pystr" where
  "fraction s =
     (case s of
        p # d # r \<Rightarrow>
          if p = 46 \<and> is_digit d then (p # d # takeWhile is_digit r, dropWhile is_digit r)
          else ([], s)
      | _ \<Rightarrow> ([], s))"

definition exponent :: "pystr \<Rightarrow> pystr \<times> pystr" where
  "exponent s =
     (case s of
        e # r \<Rightarrow>
          if e = 101 \<or> e = 69 then
            (let sg = (case r of x # _ # _ \<Rightarrow> if x = 43 \<or> x = 45 then [x] else [] | _ \<Rightarrow> []);
                 r' = drop (length sg) r
             in if takeWhile is_digit r' = [] then ([], s)
                else (e # sg @ takeWhile is_digit r', dropWhile is_digit r'))
          else ([], s)
      | [] \<Rightarrow> ([], s))"

definition match_number :: "nat \<Rightarrow> pystr \<Rightarrow> exn + (pyobj \<times> pystr)" where
  "match_number lim s =
     (let neg = (case s of c # _ \<Rightarrow> c = 45 | [] \<Rightarrow> False);
          s1 = (if neg then tl s else s)
      in case s1 of
           [] \<Rightarrow> Inl JSONDecodeError
         | c # r \<Rightarrow>
             if \<not> is_digit c then Inl JSONDecodeError
             else
               (let ip = (if c = 48 then [c] else c # takeWhile is_digit r);
                    r1 = (if c = 48 then r else dropWhile is_digit r);
                    (fp, r2) = fraction r1;
                    (ep, r3) = exponent r2
                in if fp = [] \<and> ep = [] then
                     (if too_many_digits lim (length ip) then Inl ValueError
                      else Inr (PyInt (if neg then - int (digits_value ip) else int (digits_value ip)), r3))
                   else Inr (PyFloat ((if neg then [45] else []) @ ip @ fp @ ep), r3)))"

text \<open>Storing a key in a dict: a key that is already there keeps its place and takes
  the new value.\<close>

fun dict_set :: "(pystr \<times> pyobj) list \<Rightarrow> pystr \<Rightarrow> pyobj \<Rightarrow> (pystr \<times> pyobj) list" where
  "dict_set [] k v = [(k, v)]"
| "dict_set ((k', v') # kvs) k v = (if k' = k then (k, v) # kvs else (k', v') # dict_set kvs k v)"

fun dict_get :: "(pystr \<times> pyobj) list \<Rightarrow> pystr \<Rightarrow> pyobj option" where
  "dict_get [] k = None"
| "dict_get ((k', v') # kvs) k = (if k' = k then Some v' else dict_get kvs k)"

text \<open>
  \<open>parse_value lim d s\<close> reads one value at the start of \<open>s\<close> and returns it with
  the rest of the text; \<open>lim\<close> is the limit on the digits of an integer and \<open>d\<close> the
  number of containers that may still be opened.
  \<open>parse_items\<close> and \<open>parse_members\<close> are the loops over the elements of an array and
  the members of an object. Each loop continues on a strictly shorter text; the
  tests on the lengths say so to the termination proof and never fail
  (\<open>parse_items_unguarded\<close> and \<open>parse_members_unguarded\<close> below).
\<close>

function parse_value :: "nat \<Rightarrow> nat \<Rightarrow> pystr \<Rightarrow> exn + (pyobj \<times> pystr)"
  and parse_items :: "nat \<Rightarrow> nat \<Rightarrow> pyobj list \<Rightarrow> pystr \<Rightarrow> exn + (pyobj \<times> pystr)"
  and parse_members :: "nat \<Rightarrow> nat \<Rightarrow> (pystr \<times> pyobj) list \<Rightarrow> pystr \<Rightarrow> exn + (pyobj \<times> pystr)"
where
  "parse_value lim d s =
     (case s of
        [] \<Rightarrow> Inl JSONDecodeError
      | c # r \<Rightarrow>
          if c = 34 then
            (case scan_string [] r of Inl e \<Rightarrow> Inl e | Inr (x, r') \<Rightarrow> Inr (PyStr x, r'))
          else if c = 123 then
            (if d = 0 then Inl RecursionError
             else (case skip_ws r of
                     [] \<Rightarrow> Inl JSONDecodeError
                   | c' # r' \<Rightarrow>
                       if c' = 125 then Inr (PyDict [], r')
                       else parse_members lim (d - 1) [] (skip_ws r)))
          else if c = 91 then
            (if d = 0 then Inl RecursionError
             else (case skip_ws r of
                     [] \<Rightarrow> Inl JSONDecodeError
                   | c' # r' \<Rightarrow>
                       if c' = 93 then Inr (PyList [], r')
                       else parse_items lim (d - 1) [] (skip_ws r)))
          else if prefix (ascii ''null'') s then Inr (PyNone, drop 4 s)
          else if prefix (ascii ''true'') s then Inr (PyBool True, drop 4 s)
          else if prefix (ascii ''false'') s then Inr (PyBool False, drop 5 s)
          else if prefix (ascii ''NaN'') s then Inr (PyFloat (ascii ''NaN''), drop 3 s)
          else if prefix (ascii ''Infinity'') s then Inr (PyFloat (ascii ''Infinity''), drop 8 s)
          else if prefix (ascii ''-Infinity'') s then Inr (PyFloat (ascii ''-Infinity''), drop 9 s)
          else match_number lim s)"
| "parse_items lim d acc s =
     (case parse_value lim d s of
        Inl e \<Rightarrow> Inl e
      | Inr (v, r) \<Rightarrow>
          (case skip_ws r of
             [] \<Rightarrow> Inl JSONDecodeError
           | c # r' \<Rightarrow>
               if c = 93 then Inr (PyList (rev (v # acc)), r')
               else if c = 44 \<and> length (skip_ws r') < length s
               then parse_items lim d (v # acc) (skip_ws r')
               else Inl JSONDecodeError))"
| "parse_members lim d acc s =
     (case s of
        [] \<Rightarrow> Inl JSONDecodeError
      | q # r \<Rightarrow>
          if q \<noteq> 34 then Inl JSONDecodeError
          else
            (case scan_string [] r of
               Inl e \<Rightarrow> Inl e
             | Inr (k, r1) \<Rightarrow>
                 (case skip_ws r1 of
                    [] \<Rightarrow> Inl JSONDecodeError
                  | c # r2 \<Rightarrow>
                      if c = 58 \<and> length (skip_ws r2) < length s then
                        (case parse_value lim d (skip_ws r2) of
                           Inl e \<Rightarrow> Inl e
                         | Inr (v, r3) \<Rightarrow>
                             (case skip_ws r3 of
                                [] \<Rightarrow> Inl JSONDecodeError
                              | c' # r4 \<Rightarrow>
                                  if c' = 125 then Inr (PyDict (dict_set acc k v), r4)
                                  else if c' = 44 \<and> length (skip_ws r4) < length s
                                  then parse_members lim d (dict_set acc k v) (skip_ws r4)
                                  else Inl JSONDecodeError))
                      else Inl JSONDecodeError)))"
  by pat_completeness auto
termination
  by (relation "measures
        [\<lambda>x. case x of Inl (lim, d, s) \<Rightarrow> d | Inr (Inl (lim, d, acc, s)) \<Rightarrow> d | Inr (Inr (lim, d, acc, s)) \<Rightarrow> d,
         \<lambda>x. case x of Inl (lim, d, s) \<Rightarrow> length s | Inr (Inl (lim, d, acc, s)) \<Rightarrow> length s
                      | Inr (Inr (lim, d, acc, s)) \<Rightarrow> length s,
         \<lambda>x. case x of Inl _ \<Rightarrow> 0 | Inr _ \<Rightarrow> Suc 0]")
     auto

declare parse_value.simps [simp del] parse_items.simps [simp del] parse_members.simps [simp del]

definition json_loads :: "world \<Rightarrow> pystr \<Rightarrow> exn + pyobj" where
  "json_loads w s =
     (if prefix [65279] s then Inl JSONDecodeError
      else case parse_value (int_max_str_digits w) (json_depth_limit w) (skip_ws s) of
             Inl e \<Rightarrow> Inl e
           | Inr (v, r) \<Rightarrow> if skip_ws r = [] then Inr v else Inl JSONDecodeError)"

section \<open>\<^verbatim>\<open>config.py\<close>\<close>

text \<open>
  The module \<^verbatim>\<open>config\<close> binds two names, each to what \<^verbatim>\<open>os.getenv\<close> returns (a
  \<^verbatim>\<open>str\<close> or \<^verbatim>\<open>None\<close>). Reading any other attribute of the module raises
  \<^verbatim>\<open>AttributeError\<close>.
\<close>

definition config :: "world \<Rightarrow> string \<rightharpoonup> pystr option" where
  "config w =
     [''TELEGRAM_BOT_TOKEN'' \<mapsto> environ w ''TELEGRAM_BOT_TOKEN'',
      ''CRYPTO_PAY_API_TOKEN'' \<mapsto> environ w ''CRYPTO_PAY_API_TOKEN'']"

definition getattr :: "(string \<rightharpoonup> 'a) \<Rightarrow> string \<Rightarrow> exn + 'a" where
  "getattr m name = (case m name of None \<Rightarrow> Inl (AttributeError name) | Some v \<Rightarrow> Inr v)"

section \<open>\<^verbatim>\<open>main.py\<close>: the pydantic models\<close>

record InvoicePayload =
  invoice_id :: int
  status :: pystr
  amount :: "pystr option"
  asset :: "pystr option"
  fee :: "pystr option"
  fiat_amount :: "pystr option"
  fiat_currency :: "pystr option"
  description :: "pystr option"
  custom_payload :: "pystr option"

record CryptoPayWebhook =
  update_id :: int
  update_type :: pystr
  request_date :: pystr
  payload :: InvoicePayload

text \<open>
  Validation of one field. An \<^verbatim>\<open>int\<close> field takes an \<^verbatim>\<open>int\<close> as it is and leaves any
  other input to the lax-mode conversion; a \<^verbatim>\<open>str\<close> field takes a \<^verbatim>\<open>str\<close> only; an
  \<^verbatim>\<open>Optional[str] = None\<close> field also takes \<^verbatim>\<open>None\<close> and may be missing; a field
  with no default must be there.
\<close>

definition int_field :: "world \<Rightarrow> pyobj \<Rightarrow> field_error + int" where
  "int_field w v =
     (case v of
        PyInt n \<Rightarrow> Inr n
      | _ \<Rightarrow> (case lax_int w v of Some n \<Rightarrow> Inr n | None \<Rightarrow> Inl Int_invalid))"

definition str_field :: "pyobj \<Rightarrow> field_error + pystr" where
  "str_field v = (case v of PyStr s \<Rightarrow> Inr s | _ \<Rightarrow> Inl String_invalid)"

definition optional_str_field :: "pyobj option \<Rightarrow> field_error + pystr option" where
  "optional_str_field x =
     (case x of
        None \<Rightarrow> Inr None
      | Some PyNone \<Rightarrow> Inr None
      | Some v \<Rightarrow> (case str_field v of Inl e \<Rightarrow> Inl e | Inr s \<Rightarrow> Inr (Some s)))"

definition required :: "(pyobj \<Rightarrow> field_error + 'a) \<Rightarrow> pyobj option \<Rightarrow> field_error + 'a" where
  "required f x = (case x of None \<Rightarrow> Inl Missing | Some v \<Rightarrow> f v)"

text \<open>
  A model validates all its fields and reports every failure with its location;
  \<open>at name r\<close> locates the failure of the field read under the key \<open>name\<close>, \<open>both\<close>
  joins two results and keeps the failures of each.
\<close>

type_synonym 'a validated = "(pystr list \<times> field_error) list + 'a"

definition at :: "string \<Rightarrow> field_error + 'a \<Rightarrow> 'a validated" where
  "at name r = (case r of Inl e \<Rightarrow> Inl [([ascii name], e)] | Inr x \<Rightarrow> Inr x)"

fun errors_of :: "'a validated \<Rightarrow> (pystr list \<times> field_error) list" where
  "errors_of (Inl es) = es"
| "errors_of (Inr _) = []"

fun both :: "'a validated \<Rightarrow> 'b validated \<Rightarrow> ('a \<times> 'b) validated" where
  "both (Inr a) (Inr b) = Inr (a, b)"
| "both x y = Inl (errors_of x @ errors_of y)"

text \<open>
  \<^verbatim>\<open>InvoicePayload\<close>: the field \<open>custom_payload\<close> is declared with
  \<^verbatim>\<open>Field(None, alias="payload")\<close>, so it is read under the key \<^verbatim>\<open>payload\<close>; keys that
  name no field (the key \<^verbatim>\<open>custom_payload\<close> among them) are ignored.
\<close>

definition validate_InvoicePayload :: "world \<Rightarrow> (pystr \<times> pyobj) list \<Rightarrow> InvoicePayload validated" where
  "validate_InvoicePayload w d =
     (case both (at ''invoice_id'' (required (int_field w) (dict_get d (ascii ''invoice_id''))))
          (both (at ''status'' (required str_field (dict_get d (ascii ''status''))))
          (both (at ''amount'' (optional_str_field (dict_get d (ascii ''amount''))))
          (both (at ''asset'' (optional_str_field (dict_get d (ascii ''asset''))))
          (both (at ''fee'' (optional_str_field (dict_get d (ascii ''fee''))))
          (both (at ''fiat_amount'' (optional_str_field (dict_get d (ascii ''fiat_amount''))))
          (both (at ''fiat_currency'' (optional_str_field (dict_get d (ascii ''fiat_currency''))))
          (both (at ''description'' (optional_str_field (dict_get d (ascii ''description''))))
                (at ''payload'' (optional_str_field (dict_get d (ascii ''payload'')))))))))))
      of
        Inl es \<Rightarrow> Inl es
      | Inr (i, s, a, c, f, fa, fc, de, cp) \<Rightarrow>
          Inr \<lparr>invoice_id = i, status = s, amount = a, asset = c, fee = f, fiat_amount = fa,
               fiat_currency = fc, description = de, custom_payload = cp\<rparr>)"

definition model_field :: "world \<Rightarrow> pyobj option \<Rightarrow> InvoicePayload validated" where
  "model_field w x =
     (case x of
        None \<Rightarrow> Inl [([ascii ''payload''], Missing)]
      | Some (PyDict d) \<Rightarrow>
          (case validate_InvoicePayload w d of
             Inl es \<Rightarrow> Inl (map (\<lambda>(loc, e). (ascii ''payload'' # loc, e)) es)
           | Inr p \<Rightarrow> Inr p)
      | Some _ \<Rightarrow> Inl [([ascii ''payload''], Model_invalid)])"

definition validate_CryptoPayWebhook :: "world \<Rightarrow> (pystr \<times> pyobj) list \<Rightarrow> CryptoPayWebhook validated" where
  "validate_CryptoPayWebhook w d =
     (case both (at ''update_id'' (required (int_field w) (dict_get d (ascii ''update_id''))))
          (both (at ''update_type'' (required str_field (dict_get d (ascii ''update_type''))))
          (both (at ''request_date'' (required str_field (dict_get d (ascii ''request_date''))))
                (model_field w (dict_get d (ascii ''payload'')))))
      of
        Inl es \<Rightarrow> Inl es
      | Inr (u, t, r, p) \<Rightarrow>
          Inr \<lparr>update_id = u, update_type = t, request_date = r, payload = p\<rparr>)"

text \<open>\<^verbatim>\<open>CryptoPayWebhook(**webhook_data_dict)\<close>: unpacking anything but a mapping raises
  \<^verbatim>\<open>TypeError\<close>.\<close>

definition new_CryptoPayWebhook :: "world \<Rightarrow> pyobj \<Rightarrow> exn + CryptoPayWebhook" where
  "new_CryptoPayWebhook w v =
     (case v of
        PyDict d \<Rightarrow>
          (case validate_CryptoPayWebhook w d of
             Inl es \<Rightarrow> Inl (ValidationError es)
           | Inr x \<Rightarrow> Inr x)
      | _ \<Rightarrow> Inl TypeError)"

text \<open>
  \<^verbatim>\<open>model_dump_json\<close> writes UTF-8 and raises a serialization error on a string that
  UTF-8 cannot encode (a surrogate left alone by a \<^verbatim>\<open>\uXXXX\<close> escape). Its text is only
  logged, so the model keeps whether it raises.
\<close>

definition encodable :: "pystr \<Rightarrow> bool" where
  "encodable s = (encode_utf8 s \<noteq> None)"

definition encodable_opt :: "pystr option \<Rightarrow> bool" where
  "encodable_opt x = (case x of None \<Rightarrow> True | Some s \<Rightarrow> encodable s)"

definition model_dump_json :: "CryptoPayWebhook \<Rightarrow> exn + unit" where
  "model_dump_json x =
     (let p = payload x in
      if encodable (update_type x) \<and> encodable (request_date x) \<and> encodable (status p)
         \<and> encodable_opt (amount p) \<and> encodable_opt (asset p) \<and> encodable_opt (fee p)
         \<and> encodable_opt (fiat_amount p) \<and> encodable_opt (fiat_currency p)
         \<and> encodable_opt (description p) \<and> encodable_opt (custom_payload p)
      then Inr () else Inl PydanticSerializationError)"

section \<open>\<^verbatim>\<open>main.py\<close>: the helper functions\<close>

text \<open>Python's truth value of an \<^verbatim>\<open>Optional[str]\<close>: \<^verbatim>\<open>None\<close> and the empty string are
  false.\<close>

definition truthy :: "pystr option \<Rightarrow> bool" where
  "truthy x = (case x of None \<Rightarrow> False | Some s \<Rightarrow> s \<noteq> [])"

text \<open>An f-string writes \<^verbatim>\<open>None\<close> as the four letters of its name.\<close>

definition format_opt :: "pystr option \<Rightarrow> pystr" where
  "format_opt x = (case x of None \<Rightarrow> ascii ''None'' | Some s \<Rightarrow> s)"

subsection \<open>\<^verbatim>\<open>send_telegram_message\<close>\<close>

text \<open>
  \<^verbatim>\<open>raise_for_status\<close> raises \<^verbatim>\<open>HTTPError\<close> (a \<^verbatim>\<open>RequestException\<close>) on a status code
  from 400 to 599 and on no other. The function returns its result and the list of
  the requests it has posted (the URL and the JSON payload of each).
\<close>

definition raise_for_status :: "nat \<Rightarrow> bool" where
  "raise_for_status code \<longleftrightarrow> 400 \<le> code \<and> code < 600"

definition send_telegram_message :: "world \<Rightarrow> int \<Rightarrow> pystr \<Rightarrow> (exn + bool) \<times> (pystr \<times> pyobj) list" where
  "send_telegram_message w chat_id msg =
     (case getattr (config w) ''TELEGRAM_BOT_TOKEN'' of
        Inl e \<Rightarrow> (Inl e, [])
      | Inr token \<Rightarrow>
          (let telegram_api_url =
                 ascii ''https://api.telegram.org/bot'' @ format_opt token @ ascii ''/sendMessage'';
               request =
                 PyDict [(ascii ''chat_id'', PyInt chat_id), (ascii ''text'', PyStr msg),
                         (ascii ''parse_mode'', PyStr (ascii ''HTML''))]
           in (case http_post w telegram_api_url request of
                 Response code content \<Rightarrow> if raise_for_status code then Inr False else Inr True
               | RequestException \<Rightarrow> Inr False,
               [(telegram_api_url, request)])))"

subsection \<open>\<^verbatim>\<open>verify_signature\<close>\<close>

definition hex_char :: "nat \<Rightarrow> nat" where
  "hex_char n = (if n < 10 then 48 + n else 87 + n)"

definition hexdigest :: "bytes \<Rightarrow> pystr" where
  "hexdigest bs = concat (map (\<lambda>b. [hex_char (of_char b div 16), hex_char (of_char b mod 16)]) bs)"

text \<open>\<^verbatim>\<open>hmac.compare_digest\<close> on two \<^verbatim>\<open>str\<close> raises \<^verbatim>\<open>TypeError\<close> unless both are ASCII.\<close>

definition compare_digest :: "pystr \<Rightarrow> pystr \<Rightarrow> exn + bool" where
  "compare_digest a b =
     (if list_all (\<lambda>c. c < 128) a \<and> list_all (\<lambda>c. c < 128) b then Inr (a = b) else Inl TypeError)"

text \<open>
  The body of \<^verbatim>\<open>verify_signature\<close> once \<^verbatim>\<open>config.CRYPTO_PAY_WEBHOOK_SECRET\<close> has a
  value: the early return, then the \<^verbatim>\<open>try\<close> block, where every exception gives
  \<^verbatim>\<open>False\<close>.
\<close>

definition verify_with :: "world \<Rightarrow> pystr option \<Rightarrow> bytes \<Rightarrow> pystr option \<Rightarrow> bool" where
  "verify_with w secret request_body signature_header =
     (if \<not> truthy secret \<or> \<not> truthy signature_header then True
      else case encode (format_opt secret) of
             Inl e \<Rightarrow> False
           | Inr key \<Rightarrow>
               (let calculated_signature = hexdigest (hmac_sha256 w key request_body)
                in case compare_digest calculated_signature (format_opt signature_header) of
                     Inl e \<Rightarrow> False
                   | Inr b \<Rightarrow> b))"

text \<open>The function reads the attribute of the module first, outside the \<^verbatim>\<open>try\<close>.\<close>

definition verify_signature :: "world \<Rightarrow> bytes \<Rightarrow> pystr option \<Rightarrow> exn + bool" where
  "verify_signature w request_body signature_header =
     (case getattr (config w) ''CRYPTO_PAY_WEBHOOK_SECRET'' of
        Inl e \<Rightarrow> Inl e
      | Inr secret \<Rightarrow> Inr (verify_with w secret request_body signature_header))"

section \<open>\<^verbatim>\<open>main.py\<close>: the webhook handler\<close>

subsection \<open>The recipient: the \<^verbatim>\<open>chat_id\<close> read from \<^verbatim>\<open>custom_payload\<close>\<close>

definition marker :: pystr where
  "marker = ascii ''user_id:''"

text \<open>
  \<^verbatim>\<open>chat_id\<close> stays \<^verbatim>\<open>None\<close> unless the string is non-empty, holds the marker, and
  \<^verbatim>\<open>int\<close> accepts the last piece of the split; the \<^verbatim>\<open>except\<close> clause swallows the
  \<^verbatim>\<open>ValueError\<close> of \<^verbatim>\<open>int\<close>.
\<close>

definition extract_chat_id :: "world \<Rightarrow> pystr option \<Rightarrow> int option" where
  "extract_chat_id w custom_payload_str =
     (case custom_payload_str of
        None \<Rightarrow> None
      | Some s \<Rightarrow>
          if s = [] then None
          else if is_in marker s then
            (case split s marker of
               Inl e \<Rightarrow> None
             | Inr parts \<Rightarrow>
                 (case parts of
                    [] \<Rightarrow> None
                  | _ # _ \<Rightarrow> (case py_int w (last parts) of Inl e \<Rightarrow> None | Inr n \<Rightarrow> Some n)))
          else None)"

subsection \<open>The notification text\<close>

text \<open>The literals of the source are Russian; they are written by code point. Each
  begins or ends where the source interpolates a value.\<close>

definition generic_head :: pystr where
  "generic_head = [1057, 1090, 1072, 1090, 1091, 1089, 32, 1074, 1072, 1096, 1077, 1075, 1086, 32,
     1087, 1083, 1072, 1090, 1077, 1078, 1072, 32, 40, 1048, 1085, 1074, 1086, 1081, 1089, 32,
     73, 68, 58, 32]"

definition generic_mid :: pystr where
  "generic_mid = [41, 32, 1086, 1073, 1085, 1086, 1074, 1083, 1077, 1085, 58, 32, 60, 98, 62]"

definition generic_tail :: pystr where
  "generic_tail = [60, 47, 98, 62, 46]"

definition paid_head :: pystr where
  "paid_head = [9989, 32, 1042, 1072, 1096, 32, 1087, 1083, 1072, 1090, 1077, 1078, 32, 40, 1048,
     1085, 1074, 1086, 1081, 1089, 32, 73, 68, 58, 32]"

definition paid_amount_head :: pystr where
  "paid_amount_head = [9989, 32, 1042, 1072, 1096, 32, 1087, 1083, 1072, 1090, 1077, 1078, 32,
     1085, 1072, 32, 1089, 1091, 1084, 1084, 1091, 32]"

definition invoice_open :: pystr where
  "invoice_open = [32, 40, 1048, 1085, 1074, 1086, 1081, 1089, 32, 73, 68, 58, 32]"

definition paid_tail :: pystr where
  "paid_tail = [41, 32, 1091, 1089, 1087, 1077, 1096, 1085, 1086, 32, 1087, 1086, 1083, 1091, 1095,
     1077, 1085, 33]"

definition expired_head :: pystr where
  "expired_head = [8987, 65039, 32, 1057, 1088, 1086, 1082, 32, 1076, 1077, 1081, 1089, 1090, 1074,
     1080, 1103, 32, 1074, 1072, 1096, 1077, 1075, 1086, 32, 1087, 1083, 1072, 1090, 1077, 1078,
     1072, 32, 40, 1048, 1085, 1074, 1086, 1081, 1089, 32, 73, 68, 58, 32]"

definition expired_tail :: pystr where
  "expired_tail = [41, 32, 1080, 1089, 1090, 1077, 1082, 46]"

definition notification_text :: "world \<Rightarrow> int \<Rightarrow> pystr \<Rightarrow> pystr option \<Rightarrow> pystr option \<Rightarrow> pystr" where
  "notification_text w iid st amt ast =
     (if st = ascii ''paid'' then
        (if truthy amt \<and> truthy ast
         then paid_amount_head @ format_opt amt @ [32] @ format_opt ast @ invoice_open
              @ str_int iid @ paid_tail
         else paid_head @ str_int iid @ paid_tail)
      else if st = ascii ''expired'' then expired_head @ str_int iid @ expired_tail
      else generic_head @ str_int iid @ generic_mid @ upper w st @ generic_tail)"

subsection \<open>\<^verbatim>\<open>crypto_pay_webhook_handler\<close>\<close>

text \<open>
  How a call of the handler ends: it returns a dict (answered with status 200), raises
  \<^verbatim>\<open>HTTPException\<close> with a status code and a detail, or lets another exception escape
  (answered with status 500).
\<close>

datatype outcome = Returns pyobj | HTTPException nat pystr | Raises exn

definition status_code :: "outcome \<Rightarrow> nat" where
  "status_code out = (case out of Returns _ \<Rightarrow> 200 | HTTPException code _ \<Rightarrow> code | Raises _ \<Rightarrow> 500)"

definition soft_error :: pyobj where
  "soft_error = PyDict [(ascii ''status'', PyStr (ascii ''error'')),
     (ascii ''message'', PyStr (ascii ''chat_id not found in payload, notification skipped''))]"

definition processed :: pyobj where
  "processed = PyDict [(ascii ''status'', PyStr (ascii ''ok'')),
     (ascii ''message'', PyStr (ascii ''Webhook processed''))]"

text \<open>The \<^verbatim>\<open>try\<close> block: \<^verbatim>\<open>json.loads\<close>, the model, and the log line that dumps it.\<close>

definition load_webhook :: "world \<Rightarrow> pystr \<Rightarrow> exn + CryptoPayWebhook" where
  "load_webhook w body =
     (case json_loads w body of
        Inl e \<Rightarrow> Inl e
      | Inr webhook_data_dict \<Rightarrow>
          (case new_CryptoPayWebhook w webhook_data_dict of
             Inl e \<Rightarrow> Inl e
           | Inr webhook_data \<Rightarrow>
               (case model_dump_json webhook_data of
                  Inl e \<Rightarrow> Inl e
                | Inr _ \<Rightarrow> Inr webhook_data)))"

text \<open>What follows the \<^verbatim>\<open>try\<close> block. \<^verbatim>\<open>not chat_id\<close> holds for \<^verbatim>\<open>None\<close> and for 0.\<close>

definition notify :: "world \<Rightarrow> CryptoPayWebhook \<Rightarrow> outcome \<times> (pystr \<times> pyobj) list" where
  "notify w webhook_data =
     (let invoice_payload = payload webhook_data;
          chat_id = extract_chat_id w (custom_payload invoice_payload)
      in case chat_id of
           None \<Rightarrow> (Returns soft_error, [])
         | Some c \<Rightarrow>
             if c = 0 then (Returns soft_error, [])
             else
               (let notification =
                      notification_text w (invoice_id invoice_payload) (status invoice_payload)
                        (amount invoice_payload) (asset invoice_payload)
                in case send_telegram_message w c notification of
                     (Inl e, posted) \<Rightarrow> (Raises e, posted)
                   | (Inr sent, posted) \<Rightarrow> (Returns processed, posted)))"

text \<open>
  The handler, with the request body and the value of the signature header. The
  first log line decodes the body outside the \<^verbatim>\<open>try\<close> block; the call of
  \<^verbatim>\<open>verify_signature\<close> is commented out in the source, so the header is not read.
\<close>

definition crypto_pay_webhook_handler ::
  "world \<Rightarrow> bytes \<Rightarrow> pystr option \<Rightarrow> outcome \<times> (pystr \<times> pyobj) list" where
  "crypto_pay_webhook_handler w raw_body crypto_pay_signature =
     (case decode raw_body of
        Inl e \<Rightarrow> (Raises e, [])
      | Inr body \<Rightarrow>
          (case load_webhook w body of
             Inl e \<Rightarrow>
               if e = JSONDecodeError
               then (HTTPException 400 (ascii ''Invalid JSON payload''), [])
               else (HTTPException 400 (ascii ''Invalid payload structure: '' @ exn_str w e), [])
           | Inr webhook_data \<Rightarrow> notify w webhook_data))"

section \<open>The specification's words\<close>

text \<open>
  The shape the specification documents for a request body, written from its words
  and not from the code: an object with an integer \<^verbatim>\<open>update_id\<close>, strings
  \<^verbatim>\<open>update_type\<close> and \<^verbatim>\<open>request_date\<close>, and an invoice object \<^verbatim>\<open>payload\<close> with an
  integer \<^verbatim>\<open>invoice_id\<close>, a string \<^verbatim>\<open>status\<close>, and optional strings that may be absent
  or null. \<open>spec_record\<close> is the record the specification documents for such a body,
  its \<open>custom_payload\<close> taken from the key \<^verbatim>\<open>payload\<close> of the invoice object.
\<close>

definition spec_int :: "pyobj option \<Rightarrow> bool" where
  "spec_int x = (case x of Some (PyInt n) \<Rightarrow> True | _ \<Rightarrow> False)"

definition spec_str :: "pyobj option \<Rightarrow> bool" where
  "spec_str x = (case x of Some (PyStr s) \<Rightarrow> True | _ \<Rightarrow> False)"

definition spec_optional_str :: "pyobj option \<Rightarrow> bool" where
  "spec_optional_str x =
     (case x of None \<Rightarrow> True | Some PyNone \<Rightarrow> True | Some (PyStr s) \<Rightarrow> True | _ \<Rightarrow> False)"

definition int_of :: "pyobj option \<Rightarrow> int" where
  "int_of x = (case x of Some (PyInt n) \<Rightarrow> n | _ \<Rightarrow> 0)"

definition str_of :: "pyobj option \<Rightarrow> pystr" where
  "str_of x = (case x of Some (PyStr s) \<Rightarrow> s | _ \<Rightarrow> [])"

definition optional_str_of :: "pyobj option \<Rightarrow> pystr option" where
  "optional_str_of x = (case x of Some (PyStr s) \<Rightarrow> Some s | _ \<Rightarrow> None)"

definition dict_of :: "pyobj option \<Rightarrow> (pystr \<times> pyobj) list" where
  "dict_of x = (case x of Some (PyDict d) \<Rightarrow> d | _ \<Rightarrow> [])"

definition spec_invoice_schema :: "pyobj option \<Rightarrow> bool" where
  "spec_invoice_schema x =
     (case x of
        Some (PyDict p) \<Rightarrow>
          spec_int (dict_get p (ascii ''invoice_id'')) \<and> spec_str (dict_get p (ascii ''status''))
          \<and> spec_optional_str (dict_get p (ascii ''amount''))
          \<and> spec_optional_str (dict_get p (ascii ''asset''))
          \<and> spec_optional_str (dict_get p (ascii ''fee''))
          \<and> spec_optional_str (dict_get p (ascii ''fiat_amount''))
          \<and> spec_optional_str (dict_get p (ascii ''fiat_currency''))
          \<and> spec_optional_str (dict_get p (ascii ''description''))
          \<and> spec_optional_str (dict_get p (ascii ''payload''))
      | _ \<Rightarrow> False)"

definition spec_schema :: "pyobj \<Rightarrow> bool" where
  "spec_schema v =
     (case v of
        PyDict d \<Rightarrow>
          spec_int (dict_get d (ascii ''update_id'')) \<and> spec_str (dict_get d (ascii ''update_type''))
          \<and> spec_str (dict_get d (ascii ''request_date''))
          \<and> spec_invoice_schema (dict_get d (ascii ''payload''))
      | _ \<Rightarrow> False)"

definition spec_invoice_record :: "(pystr \<times> pyobj) list \<Rightarrow> InvoicePayload" where
  "spec_invoice_record p =
     \<lparr>invoice_id = int_of (dict_get p (ascii ''invoice_id'')),
      status = str_of (dict_get p (ascii ''status'')),
      amount = optional_str_of (dict_get p (ascii ''amount'')),
      asset = optional_str_of (dict_get p (ascii ''asset'')),
      fee = optional_str_of (dict_get p (ascii ''fee'')),
      fiat_amount = optional_str_of (dict_get p (ascii ''fiat_amount'')),
      fiat_currency = optional_str_of (dict_get p (ascii ''fiat_currency'')),
      description = optional_str_of (dict_get p (ascii ''description'')),
      custom_payload = optional_str_of (dict_get p (ascii ''payload''))\<rparr>"

definition spec_record :: "pyobj \<Rightarrow> CryptoPayWebhook" where
  "spec_record v =
     (let d = dict_of (Some v) in
      \<lparr>update_id = int_of (dict_get d (ascii ''update_id'')),
       update_type = str_of (dict_get d (ascii ''update_type'')),
       request_date = str_of (dict_get d (ascii ''request_date'')),
       payload = spec_invoice_record (dict_of (dict_get d (ascii ''payload'')))\<rparr>)"

text \<open>The specification's failed dispatch: a response that is a client or server
  error, or no response at all.\<close>

definition dispatch_failed :: "post_result \<Rightarrow> bool" where
  "dispatch_failed r =
     (case r of Response code content \<Rightarrow> 400 \<le> code \<and> code < 600 | RequestException \<Rightarrow> True)"

section \<open>A world to run the program in\<close>

text \<open>
  A world for the concrete runs below: the bot token is set, the messaging endpoint
  answers 200, the runtime is Python 3.11 or later with its default limits, and the
  Unicode tables and the lax conversions have no entry.
\<close>

definition demo_world :: world where
  "demo_world =
     \<lparr>environ = (\<lambda>name. if name = ''TELEGRAM_BOT_TOKEN'' then Some (ascii ''123:abc'') else None),
      http_post = (\<lambda>url request. Response 200 []),
      uni_isspace = (\<lambda>c. False),
      uni_decimal = (\<lambda>c. None),
      uni_upper = (\<lambda>c. [c]),
      int_max_str_digits = 4300,
      json_depth_limit = 900,
      lax_int = (\<lambda>v. None),
      exn_str = (\<lambda>e. ascii ''validation error''),
      hmac_sha256 = (\<lambda>key msg. replicate 32 (CHR 0x00))\<rparr>"

text \<open>The same world with an endpoint that answers 304, and with one that cannot be
  reached.\<close>

definition not_modified_world :: world where
  "not_modified_world = demo_world\<lparr>http_post := (\<lambda>url request. Response 304 [])\<rparr>"

definition failing_world :: world where
  "failing_world = demo_world\<lparr>http_post := (\<lambda>url request. RequestException)\<rparr>"

definition demo_url :: pystr where
  "demo_url = ascii ''https://api.telegram.org/bot123:abc/sendMessage''"

text \<open>Three requests, and the records they load into: a paid invoice whose payload
  names the recipient 42, one whose payload has no marker, and one whose payload names
  the recipient 0.\<close>

definition paid_request :: bytes where
  \<open>paid_request = ''{"update_id": 1, "update_type": "invoice_paid", "request_date": "2024-01-01T00:00:00Z", "payload": {"invoice_id": 7, "status": "paid", "amount": "10.5", "asset": "TON", "payload": "foo:bar,user_id:42"}}''\<close>

definition paid_webhook :: CryptoPayWebhook where
  "paid_webhook =
     \<lparr>update_id = 1, update_type = ascii ''invoice_paid'',
      request_date = ascii ''2024-01-01T00:00:00Z'',
      payload = \<lparr>invoice_id = 7, status = ascii ''paid'', amount = Some (ascii ''10.5''),
        asset = Some (ascii ''TON''), fee = None, fiat_amount = None, fiat_currency = None,
        description = None, custom_payload = Some (ascii ''foo:bar,user_id:42'')\<rparr>\<rparr>"

definition paid_json :: pyobj where
  "paid_json =
     PyDict [(ascii ''update_id'', PyInt 1), (ascii ''update_type'', PyStr (ascii ''invoice_paid'')),
       (ascii ''request_date'', PyStr (ascii ''2024-01-01T00:00:00Z'')),
       (ascii ''payload'', PyDict [(ascii ''invoice_id'', PyInt 7), (ascii ''status'', PyStr (ascii ''paid'')),
          (ascii ''amount'', PyStr (ascii ''10.5'')), (ascii ''asset'', PyStr (ascii ''TON'')),
          (ascii ''payload'', PyStr (ascii ''foo:bar,user_id:42''))])]"

definition paid_text :: pystr where
  "paid_text = paid_amount_head @ ascii ''10.5 TON'' @ invoice_open @ ascii ''7'' @ paid_tail"

definition anonymous_request :: bytes where
  \<open>anonymous_request = ''{"update_id": 2, "update_type": "invoice_paid", "request_date": "2024-01-01T00:00:00Z", "payload": {"invoice_id": 8, "status": "paid", "payload": "no marker here"}}''\<close>

definition anonymous_webhook :: CryptoPayWebhook where
  "anonymous_webhook =
     \<lparr>update_id = 2, update_type = ascii ''invoice_paid'',
      request_date = ascii ''2024-01-01T00:00:00Z'',
      payload = \<lparr>invoice_id = 8, status = ascii ''paid'', amount = None,
        asset = None, fee = None, fiat_amount = None, fiat_currency = None,
        description = None, custom_payload = Some (ascii ''no marker here'')\<rparr>\<rparr>"

definition zero_request :: bytes where
  \<open>zero_request = ''{"update_id": 3, "update_type": "invoice_paid", "request_date": "2024-01-01T00:00:00Z", "payload": {"invoice_id": 9, "status": "expired", "payload": "foo:bar,user_id:0"}}''\<close>

definition zero_webhook :: CryptoPayWebhook where
  "zero_webhook =
     \<lparr>update_id = 3, update_type = ascii ''invoice_paid'',
      request_date = ascii ''2024-01-01T00:00:00Z'',
      payload = \<lparr>invoice_id = 9, status = ascii ''expired'', amount = None,
        asset = None, fee = None, fiat_amount = None, fiat_currency = None,
        description = None, custom_payload = Some (ascii ''foo:bar,user_id:0'')\<rparr>\<rparr>"

text \<open>
  Two more bodies of the documented shape: one whose \<^verbatim>\<open>update_id\<close> has 4301 digits, with
  the value it decodes to where the runtime sets no limit on the digits of an integer,
  and one whose \<^verbatim>\<open>description\<close> is the escape of a surrogate alone, with the value it
  decodes to.
\<close>

definition long_digits :: pystr where
  "long_digits = replicate 4300 49"

definition long_integer_request :: bytes where
  \<open>long_integer_request = ''{"update_id": 1'' @ replicate 4300 (CHR ''1'') @ '', "update_type": "invoice_paid", "request_date": "2024-01-01T00:00:00Z", "payload": {"invoice_id": 7, "status": "paid"}}''\<close>

definition long_integer_json :: pyobj where
  "long_integer_json =
     PyDict [(ascii ''update_id'', PyInt (int (digits_value (49 # long_digits)))),
       (ascii ''update_type'', PyStr (ascii ''invoice_paid'')),
       (ascii ''request_date'', PyStr (ascii ''2024-01-01T00:00:00Z'')),
       (ascii ''payload'', PyDict [(ascii ''invoice_id'', PyInt 7), (ascii ''status'', PyStr (ascii ''paid''))])]"

definition surrogate_request :: bytes where
  \<open>surrogate_request = ''{"update_id": 4, "update_type": "invoice_paid", "request_date": "2024-01-01T00:00:00Z", "payload": {"invoice_id": 10, "status": "paid", "description": "'' @ [CHR 0x5C] @ ''ud800"}}''\<close>

definition surrogate_json :: pyobj where
  "surrogate_json =
     PyDict [(ascii ''update_id'', PyInt 4),
       (ascii ''update_type'', PyStr (ascii ''invoice_paid'')),
       (ascii ''request_date'', PyStr (ascii ''2024-01-01T00:00:00Z'')),
       (ascii ''payload'', PyDict [(ascii ''invoice_id'', PyInt 10), (ascii ''status'', PyStr (ascii ''paid'')),
          (ascii ''description'', PyStr [55296])])]"

definition unlimited_world :: world where
  "unlimited_world = demo_world\<lparr>int_max_str_digits := 0\<rparr>"

text \<open>The equations that evaluate a run.\<close>

lemmas run_defs =
  demo_world_def demo_url_def ascii_def decode_def cont_def json_loads_def skip_ws_def is_ws_def
  match_number_def is_digit_def fraction_def exponent_def too_many_digits_def digits_value_def
  Let_def load_webhook_def new_CryptoPayWebhook_def validate_CryptoPayWebhook_def
  validate_InvoicePayload_def model_field_def at_def required_def int_field_def str_field_def
  optional_str_field_def model_dump_json_def encodable_def encodable_opt_def encode_cp_def
  extract_chat_id_def marker_def split_def py_int_def c_isspace_def truthy_def format_opt_def
  getattr_def config_def raise_for_status_def str_int_def upper_def upper_cp_def
  parse_value.simps parse_items.simps parse_members.simps
  escape_def uXXXX_def low_surrogate_def hex4_def hex_digit_def unescape_def

text \<open>The equations of the decoder alone, the value of a digit string left as it is.\<close>

lemmas parse_defs =
  json_loads_def skip_ws_def is_ws_def match_number_def is_digit_def fraction_def exponent_def
  too_many_digits_def Let_def parse_value.simps parse_items.simps parse_members.simps
  escape_def uXXXX_def low_surrogate_def hex4_def hex_digit_def unescape_def

section \<open>Properties of the built-in operations\<close>

lemma is_in_sublist: "is_in sep s \<longleftrightarrow> sublist sep s"
  by (induction s) (auto simp: sublist_Cons_right)

lemma is_in_append: "is_in sep (p @ sep @ t)"
  by (simp add: is_in_sublist)

lemma split_from_not_Nil: "split_from sep acc s \<noteq> []"
  by (induction sep acc s rule: split_from.induct) auto

lemma split_from_absent: "\<not> is_in sep t \<Longrightarrow> split_from sep acc t = [rev acc @ t]"
  by (induction t arbitrary: acc) auto

lemma prefix_overlap:
  assumes "prefix (a # rest) (p @ (a # rest) @ t)" and "a \<notin> set rest" and "p \<noteq> []"
  shows "length (a # rest) \<le> length p"
proof (rule ccontr)
  assume "\<not> length (a # rest) \<le> length p"
  with assms(3) obtain n where n: "length p = Suc n" "n < length rest"
    by (cases p) auto
  from assms(1) obtain z where z: "p @ (a # rest) @ t = (a # rest) @ z"
    by (auto simp: prefix_def)
  have "(p @ (a # rest) @ t) ! length p = a"
    by (simp add: nth_append)
  moreover have "((a # rest) @ z) ! Suc n = rest ! n"
    using n(2) by (simp add: nth_append)
  moreover have "rest ! n \<in> set rest"
    using n(2) by simp
  ultimately show False using z n(1) assms(2) by metis
qed

lemma split_from_last:
  assumes "a \<notin> set rest" and "\<not> is_in (a # rest) t"
  shows "s = p @ (a # rest) @ t \<Longrightarrow> last (split_from (a # rest) acc s) = t"
proof (induction "a # rest" acc s arbitrary: p rule: split_from.induct)
  case (1 acc)
  then show ?case by simp
next
  case (2 acc c cs)
  show ?case
  proof (cases "prefix (a # rest) (c # cs)")
    case True
    show ?thesis
    proof (cases "p = []")
      case True
      with 2(3) have "drop (length (a # rest)) (c # cs) = t" by simp
      with \<open>prefix (a # rest) (c # cs)\<close> show ?thesis
        using split_from_absent [OF assms(2), of "[]"] by simp
    next
      case False
      have "length (a # rest) \<le> length p"
        using prefix_overlap [OF _ assms(1) False, of t] \<open>prefix (a # rest) (c # cs)\<close> 2(3) by simp
      then have "drop (length (a # rest)) (c # cs) = drop (length (a # rest)) p @ (a # rest) @ t"
        using 2(3) by simp
      from 2(1) [OF _ this] \<open>prefix (a # rest) (c # cs)\<close>
      have "last (split_from (a # rest) [] (drop (length (a # rest)) (c # cs))) = t" by simp
      with \<open>prefix (a # rest) (c # cs)\<close> show ?thesis
        by (simp add: split_from_not_Nil)
    qed
  next
    case False
    then have "p \<noteq> []" using 2(3) by (cases p) auto
    then obtain p' where "p = c # p'" "cs = p' @ (a # rest) @ t"
      using 2(3) by (cases p) auto
    from 2(2) [OF _ this(2)] False show ?thesis by auto
  qed
qed

lemma marker_Cons: "marker = 117 # [115, 101, 114, 95, 105, 100, 58]"
  by (simp add: marker_def ascii_def)

lemma split_marker_last:
  "\<not> is_in marker t \<Longrightarrow> split (p @ marker @ t) marker = Inr parts \<Longrightarrow> parts \<noteq> [] \<and> last parts = t"
  unfolding marker_Cons split_def
  using split_from_last [of 117 "[115, 101, 114, 95, 105, 100, 58]" t _ p "[]"]
  by (auto simp: split_from_not_Nil)

lemma extract_after_last_marker:
  "\<not> is_in marker t \<Longrightarrow>
   extract_chat_id w (Some (p @ marker @ t)) = (case py_int w t of Inl e \<Rightarrow> None | Inr n \<Rightarrow> Some n)"
proof -
  assume a: "\<not> is_in marker t"
  have ne: "p @ marker @ t \<noteq> []" by (simp add: marker_Cons)
  obtain parts where s: "split (p @ marker @ t) marker = Inr parts"
    by (simp add: split_def marker_Cons)
  from split_marker_last [OF a s] have "parts \<noteq> []" "last parts = t" by auto
  then show ?thesis
    using ne s by (auto simp: extract_chat_id_def is_in_append split: list.splits)
qed

lemma to_ascii_plain: "list_all (\<lambda>c. c < 127) s \<Longrightarrow> to_ascii w s = s"
  by (induction s) auto

lemma py_int_zero: "py_int w [48] = Inr 0"
  by (simp add: py_int_def c_isspace_def is_digit_def too_many_digits_def)

lemma py_int_42: "py_int w (ascii ''42'') = Inr 42"
  by (simp add: py_int_def c_isspace_def is_digit_def too_many_digits_def ascii_def)

lemma not_in_42: "\<not> is_in marker (ascii ''42'')"
  by (simp add: marker_def ascii_def)

lemma not_in_zero: "\<not> is_in marker [48]"
  by (simp add: marker_def ascii_def)

lemma extract_paid: "extract_chat_id w (Some (ascii ''foo:bar,user_id:42'')) = Some 42"
proof -
  have "ascii ''foo:bar,user_id:42'' = ascii ''foo:bar,'' @ marker @ ascii ''42''"
    by (simp add: ascii_def marker_def)
  then show ?thesis
    using extract_after_last_marker [OF not_in_42, of w "ascii ''foo:bar,''"]
    by (simp add: py_int_42)
qed

section \<open>Properties of the decoder\<close>

text \<open>Whatever the decoder reads, it returns a strictly shorter rest.\<close>

lemma scan_string_shorter: "scan_string acc s = Inr (x, r) \<Longrightarrow> length r < length s"
proof (induction acc s rule: scan_string.induct)
  case (1 acc)
  then show ?case by simp
next
  case (2 acc c cs)
  show ?case
  proof (cases "c = 34")
    case True
    with 2(3) show ?thesis by simp
  next
    case q: False
    show ?thesis
    proof (cases "c < 32")
      case True
      with 2(3) q show ?thesis by simp
    next
      case k: False
      show ?thesis
      proof (cases "c = 92")
        case False
        with 2(3) q k have "scan_string (c # acc) cs = Inr (x, r)" by simp
        from 2(1) [OF q k False this] show ?thesis by simp
      next
        case True
        with 2(3) q k obtain u t where e: "escape cs = Some (u, t)"
          and s: "scan_string (u # acc) t = Inr (x, r)"
          by (auto split: option.splits)
        have b: "\<not> c \<noteq> 92" using True by simp
        from 2(2) [OF q k b e refl s] escape_shorter [OF e] show ?thesis by simp
      qed
    qed
  qed
qed

lemma skip_ws_le: "length (skip_ws s) \<le> length s"
  by (simp add: skip_ws_def length_dropWhile_le)

lemma fraction_le: "length (snd (fraction s)) \<le> length s"
  by (auto simp: fraction_def le_SucI length_dropWhile_le split: list.splits)

lemma exponent_le: "length (snd (exponent s)) \<le> length s"
  by (auto simp: exponent_def Let_def le_SucI length_dropWhile_le split: list.splits
      intro: order_trans [OF length_dropWhile_le])

lemma match_number_shorter: "match_number lim s = Inr (v, r) \<Longrightarrow> length r < length s"
proof -
  assume a: "match_number lim s = Inr (v, r)"
  define s1 where "s1 = (if (case s of c # _ \<Rightarrow> c = 45 | [] \<Rightarrow> False) then tl s else s)"
  have s1: "length s1 \<le> length s" by (simp add: s1_def)
  from a obtain c r0 where c: "s1 = c # r0"
    by (cases s1) (auto simp: match_number_def s1_def Let_def)
  define r1 where "r1 = (if c = 48 then r0 else dropWhile is_digit r0)"
  have r1: "length r1 \<le> length r0" by (simp add: r1_def length_dropWhile_le)
  from a c have "r = snd (exponent (snd (fraction r1)))"
    by (auto simp: match_number_def s1_def [symmetric] r1_def [symmetric] Let_def
        split: if_splits prod.splits)
  then have "length r \<le> length r1"
    using exponent_le [of "snd (fraction r1)"] fraction_le [of r1] by simp
  with r1 c s1 show ?thesis by simp
qed

lemma prefix_drop_shorter: "prefix (ascii (c # cs)) s \<Longrightarrow> length (drop (Suc n) s) < length s"
  by (cases s) (auto simp: ascii_def)

lemma parse_shorter:
  "parse_value lim d s = Inr (v, r) \<Longrightarrow> length r < length s"
  "parse_items lim d acc s = Inr (v, r) \<Longrightarrow> length r < length s"
  "parse_members lim d kvs s = Inr (v, r) \<Longrightarrow> length r < length s"
proof (induction lim d s and lim d acc s and lim d kvs s arbitrary: v r and v r and v r
    rule: parse_value_parse_items_parse_members.induct)
  case (1 lim d s)
  show ?case
  proof (cases s)
    case Nil
    with 1(3) show ?thesis by (simp add: parse_value.simps)
  next
    case (Cons c t)
    consider (str) "c = 34" | (obj) "c = 123" | (arr) "c = 91" | (other) "c \<noteq> 34" "c \<noteq> 123" "c \<noteq> 91"
      by blast
    then show ?thesis
    proof cases
      case str
      with 1(3) Cons show ?thesis
        by (auto simp: parse_value.simps split: sum.splits dest: scan_string_shorter)
    next
      case obj
      show ?thesis
      proof (cases "skip_ws t")
        case Nil
        with 1(3) Cons obj show ?thesis by (simp add: parse_value.simps split: if_splits)
      next
        case (Cons c' r')
        have le: "length (skip_ws t) \<le> length t" by (rule skip_ws_le)
        show ?thesis
        proof (cases "c' = 125")
          case True
          with 1(3) \<open>s = c # t\<close> obj Cons le show ?thesis
            by (auto simp: parse_value.simps split: if_splits)
        next
          case False
          with 1(3) \<open>s = c # t\<close> obj Cons
          have d: "d \<noteq> 0" and p: "parse_members lim (d - 1) [] (skip_ws t) = Inr (v, r)"
            by (auto simp: parse_value.simps split: if_splits)
          from 1(1) [OF \<open>s = c # t\<close> _ _ d Cons False p] obj
          have "length r < length (skip_ws t)" by simp
          with le \<open>s = c # t\<close> show ?thesis by simp
        qed
      qed
    next
      case arr
      show ?thesis
      proof (cases "skip_ws t")
        case Nil
        with 1(3) Cons arr show ?thesis by (simp add: parse_value.simps split: if_splits)
      next
        case (Cons c' r')
        have le: "length (skip_ws t) \<le> length t" by (rule skip_ws_le)
        show ?thesis
        proof (cases "c' = 93")
          case True
          with 1(3) \<open>s = c # t\<close> arr Cons le show ?thesis
            by (auto simp: parse_value.simps split: if_splits)
        next
          case False
          with 1(3) \<open>s = c # t\<close> arr Cons
          have d: "d \<noteq> 0" and p: "parse_items lim (d - 1) [] (skip_ws t) = Inr (v, r)"
            by (auto simp: parse_value.simps split: if_splits)
          from 1(2) [OF \<open>s = c # t\<close> _ _ _ d Cons False p] arr
          have "length r < length (skip_ws t)" by simp
          with le \<open>s = c # t\<close> show ?thesis by simp
        qed
      qed
    next
      case other
      with 1(3) Cons show ?thesis
        by (auto simp: parse_value.simps split: if_splits
            dest: match_number_shorter prefix_drop_shorter)
    qed
  qed
next
  case (2 lim d acc s)
  from 2(3) obtain x r1 where p: "parse_value lim d s = Inr (x, r1)"
    by (auto simp: parse_items.simps split: sum.splits)
  from 2(1) [OF p] have l1: "length r1 < length s" .
  have le: "length (skip_ws r1) \<le> length r1" by (rule skip_ws_le)
  show ?case
  proof (cases "skip_ws r1")
    case Nil
    with 2(3) p show ?thesis by (simp add: parse_items.simps)
  next
    case (Cons c r')
    show ?thesis
    proof (cases "c = 93")
      case True
      with 2(3) p Cons have "r = r'" by (simp add: parse_items.simps)
      with Cons le l1 show ?thesis by simp
    next
      case False
      with 2(3) p Cons have c: "c = 44 \<and> length (skip_ws r') < length s"
        and q: "parse_items lim d (x # acc) (skip_ws r') = Inr (v, r)"
        by (auto simp: parse_items.simps split: if_splits)
      from 2(2) [OF p refl Cons False c q] c show ?thesis by simp
    qed
  qed
next
  case (3 lim d kvs s)
  from 3(3) obtain q t where s: "s = q # t" "q = 34"
    by (cases s) (auto simp: parse_members.simps split: if_splits)
  from 3(3) s obtain k r1 where k: "scan_string [] t = Inr (k, r1)"
    by (auto simp: parse_members.simps split: sum.splits)
  from 3(3) s k obtain c r2 where c: "skip_ws r1 = c # r2"
    by (cases "skip_ws r1") (auto simp: parse_members.simps)
  from 3(3) s k c have g: "c = 58 \<and> length (skip_ws r2) < length s"
    by (auto simp: parse_members.simps split: if_splits)
  from 3(3) s k c g obtain x r3 where p: "parse_value lim d (skip_ws r2) = Inr (x, r3)"
    by (auto simp: parse_members.simps split: sum.splits)
  have q0: "\<not> q \<noteq> 34" using s by simp
  from 3(1) [OF s(1) q0 k refl c g p] have l3: "length r3 < length (skip_ws r2)" .
  have le: "length (skip_ws r3) \<le> length r3" by (rule skip_ws_le)
  show ?case
  proof (cases "skip_ws r3")
    case Nil
    with 3(3) s k c g p show ?thesis by (simp add: parse_members.simps)
  next
    case (Cons c' r4)
    show ?thesis
    proof (cases "c' = 125")
      case True
      with 3(3) s k c g p Cons have "r = r4" by (simp add: parse_members.simps)
      with Cons le l3 g show ?thesis by simp
    next
      case False
      with 3(3) s k c g p Cons have h: "c' = 44 \<and> length (skip_ws r4) < length s"
        and m: "parse_members lim d (dict_set kvs k x) (skip_ws r4) = Inr (v, r)"
        by (auto simp: parse_members.simps split: if_splits)
      from 3(2) [OF s(1) q0 k refl c g p refl Cons False h m] h show ?thesis by simp
    qed
  qed
qed

text \<open>
  So the tests on the lengths in the two loops always hold: the loops satisfy the
  equations without them.
\<close>

lemma parse_items_unguarded:
  "parse_items lim d acc s =
     (case parse_value lim d s of
        Inl e \<Rightarrow> Inl e
      | Inr (v, r) \<Rightarrow>
          (case skip_ws r of
             [] \<Rightarrow> Inl JSONDecodeError
           | c # r' \<Rightarrow>
               if c = 93 then Inr (PyList (rev (v # acc)), r')
               else if c = 44 then parse_items lim d (v # acc) (skip_ws r')
               else Inl JSONDecodeError))"
proof (cases "parse_value lim d s")
  case (Inl e)
  then show ?thesis by (simp add: parse_items.simps)
next
  case (Inr p)
  obtain v r where p: "p = (v, r)" by (cases p)
  from parse_shorter(1) [of lim d s v r] Inr p have l: "length r < length s" by simp
  show ?thesis
  proof (cases "skip_ws r")
    case Nil
    with Inr p show ?thesis by (simp add: parse_items.simps)
  next
    case (Cons c r')
    have "length (skip_ws r') \<le> length r'" by (rule skip_ws_le)
    moreover have "length (skip_ws r) \<le> length r" by (rule skip_ws_le)
    ultimately have "length (skip_ws r') < length s" using l Cons by simp
    with Inr p Cons show ?thesis by (simp add: parse_items.simps [of lim d acc s])
  qed
qed

lemma parse_members_unguarded:
  "parse_members lim d kvs s =
     (case s of
        [] \<Rightarrow> Inl JSONDecodeError
      | q # t \<Rightarrow>
          if q \<noteq> 34 then Inl JSONDecodeError
          else
            (case scan_string [] t of
               Inl e \<Rightarrow> Inl e
             | Inr (k, r1) \<Rightarrow>
                 (case skip_ws r1 of
                    [] \<Rightarrow> Inl JSONDecodeError
                  | c # r2 \<Rightarrow>
                      if c = 58 then
                        (case parse_value lim d (skip_ws r2) of
                           Inl e \<Rightarrow> Inl e
                         | Inr (v, r3) \<Rightarrow>
                             (case skip_ws r3 of
                                [] \<Rightarrow> Inl JSONDecodeError
                              | c' # r4 \<Rightarrow>
                                  if c' = 125 then Inr (PyDict (dict_set kvs k v), r4)
                                  else if c' = 44
                                  then parse_members lim d (dict_set kvs k v) (skip_ws r4)
                                  else Inl JSONDecodeError))
                      else Inl JSONDecodeError)))"
proof (cases s)
  case Nil
  then show ?thesis by (simp add: parse_members.simps)
next
  case s: (Cons q t)
  show ?thesis
  proof (cases "scan_string [] t")
    case (Inl e)
    with s show ?thesis by (simp add: parse_members.simps)
  next
    case (Inr p)
    obtain k r1 where p: "p = (k, r1)" by (cases p)
    from scan_string_shorter [of "[]" t k r1] Inr p have l1: "length r1 < length t" by simp
    show ?thesis
    proof (cases "skip_ws r1")
      case Nil
      with s Inr p show ?thesis by (simp add: parse_members.simps)
    next
      case c: (Cons c r2)
      have "length (skip_ws r1) \<le> length r1" "length (skip_ws r2) \<le> length r2"
        by (rule skip_ws_le)+
      with c l1 s have g1: "length (skip_ws r2) < length s" by simp
      show ?thesis
      proof (cases "parse_value lim d (skip_ws r2)")
        case (Inl e)
        with s Inr p c g1 show ?thesis by (simp add: parse_members.simps [of lim d kvs "q # t"])
      next
        case v: (Inr pv)
        obtain v r3 where pv: "pv = (v, r3)" by (cases pv)
        from parse_shorter(1) [of lim d "skip_ws r2" v r3] v pv
        have l3: "length r3 < length (skip_ws r2)" by simp
        show ?thesis
        proof (cases "skip_ws r3")
          case Nil
          with s Inr p c g1 v pv show ?thesis by (simp add: parse_members.simps [of lim d kvs "q # t"])
        next
          case c': (Cons c' r4)
          have "length (skip_ws r3) \<le> length r3" "length (skip_ws r4) \<le> length r4"
            by (rule skip_ws_le)+
          with c' l3 g1 have g2: "length (skip_ws r4) < length s" by simp
          with s Inr p c g1 v pv c' show ?thesis
            by (simp add: parse_members.simps [of lim d kvs "q # t"])
        qed
      qed
    qed
  qed
qed

section \<open>The sample requests, run\<close>

lemma decode_paid_request: "decode paid_request = Inr (ascii paid_request)"
  by (simp add: paid_request_def run_defs)

lemma load_paid_request: "load_webhook demo_world (ascii paid_request) = Inr paid_webhook"
  by (simp add: paid_request_def paid_webhook_def run_defs)

lemma decode_anonymous_request: "decode anonymous_request = Inr (ascii anonymous_request)"
  by (simp add: anonymous_request_def run_defs)

lemma load_anonymous_request: "load_webhook demo_world (ascii anonymous_request) = Inr anonymous_webhook"
  by (simp add: anonymous_request_def anonymous_webhook_def run_defs)

lemma decode_zero_request: "decode zero_request = Inr (ascii zero_request)"
  by (simp add: zero_request_def run_defs)

lemma load_zero_request: "load_webhook demo_world (ascii zero_request) = Inr zero_webhook"
  by (simp add: zero_request_def zero_webhook_def run_defs)

lemma send_demo:
  "send_telegram_message demo_world c msg =
    (Inr True, [(demo_url, PyDict [(ascii ''chat_id'', PyInt c), (ascii ''text'', PyStr msg),
       (ascii ''parse_mode'', PyStr (ascii ''HTML''))])])"
  by (simp add: send_telegram_message_def run_defs)

lemma notify_paid:
  "notify demo_world paid_webhook =
    (Returns processed, [(demo_url, PyDict [(ascii ''chat_id'', PyInt 42),
       (ascii ''text'', PyStr paid_text), (ascii ''parse_mode'', PyStr (ascii ''HTML''))])])"
proof -
  have "extract_chat_id demo_world (custom_payload (payload paid_webhook)) = Some 42"
    by (simp add: paid_webhook_def extract_paid)
  moreover have "notification_text demo_world (invoice_id (payload paid_webhook))
      (status (payload paid_webhook)) (amount (payload paid_webhook)) (asset (payload paid_webhook))
      = paid_text"
    by (simp add: paid_webhook_def notification_text_def paid_text_def truthy_def format_opt_def
        str_int_def ascii_def)
  ultimately show ?thesis
    by (simp add: notify_def send_demo)
qed

lemma handler_paid:
  "crypto_pay_webhook_handler demo_world paid_request sig =
    (Returns processed, [(demo_url, PyDict [(ascii ''chat_id'', PyInt 42),
       (ascii ''text'', PyStr paid_text), (ascii ''parse_mode'', PyStr (ascii ''HTML''))])])"
  by (simp add: crypto_pay_webhook_handler_def decode_paid_request load_paid_request notify_paid)

section \<open>The signature verifier\<close>

lemma hex_char_ascii: "n < 16 \<Longrightarrow> hex_char n < 128"
  by (simp add: hex_char_def)

lemma hexdigest_ascii: "list_all (\<lambda>c. c < 128) (hexdigest bs)"
proof (induction bs)
  case Nil
  then show ?case by (simp add: hexdigest_def)
next
  case (Cons b bs)
  have "(of_char b :: nat) < 16 * 16" by simp
  then have "(of_char b :: nat) div 16 < 16" "(of_char b :: nat) mod 16 < 16"
    by (simp_all add: less_mult_imp_div_less)
  with Cons show ?case by (simp add: hexdigest_def hex_char_ascii)
qed

lemma hexdigest_length: "length (hexdigest bs) = 2 * length bs"
  by (induction bs) (simp_all add: hexdigest_def)

text \<open>
  Where the secret has a value, the body of the function does what its docstring says:
  it lets the request pass when the secret or the header is missing or empty, and
  accepts a header exactly when it is the hex digest of the HMAC of the body.
\<close>

lemma verify_with_fails_open:
  "\<not> truthy secret \<or> \<not> truthy signature_header \<Longrightarrow>
   verify_with w secret request_body signature_header = True"
  by (auto simp: verify_with_def)

lemma verify_with_exact_match:
  assumes "secret \<noteq> []" and "header \<noteq> []" and "encode secret = Inr key"
  shows "verify_with w (Some secret) request_body (Some header) \<longleftrightarrow>
         header = hexdigest (hmac_sha256 w key request_body)"
  using assms hexdigest_ascii [of "hmac_sha256 w key request_body"]
  by (auto simp: verify_with_def truthy_def format_opt_def compare_digest_def)

text \<open>
  Claim C8: \<^verbatim>\<open>verify_signature\<close> fails open, returning \<^verbatim>\<open>True\<close> when no secret is
  configured or no signature header is present. The code does not: its first
  expression reads \<^verbatim>\<open>config.CRYPTO_PAY_WEBHOOK_SECRET\<close>, a name that \<^verbatim>\<open>config.py\<close> never
  binds, so every call raises \<^verbatim>\<open>AttributeError\<close>, whatever the environment, the body
  and the header.
\<close>

theorem verify_signature_raises:
  "verify_signature w request_body signature_header =
     Inl (AttributeError ''CRYPTO_PAY_WEBHOOK_SECRET'')"
  by (simp add: verify_signature_def getattr_def config_def)

text \<open>
  Claim C7: with a secret and a header, \<^verbatim>\<open>verify_signature\<close> computes the hex digest
  of the HMAC-SHA256 of the body and returns \<^verbatim>\<open>True\<close> only when the header equals it.
  The code never computes it: with the secret set in the environment under the name
  the source reads, and the header equal to the digest of the body, the call raises
  \<^verbatim>\<open>AttributeError\<close> (the same defect as in C8).
\<close>

theorem verify_signature_never_computes:
  "verify_signature (w\<lparr>environ := (environ w)(''CRYPTO_PAY_WEBHOOK_SECRET'' \<mapsto> secret)\<rparr>)
     request_body (Some (hexdigest (hmac_sha256 w key request_body)))
   = Inl (AttributeError ''CRYPTO_PAY_WEBHOOK_SECRET'')"
  by (simp add: verify_signature_def getattr_def config_def)

section \<open>The handler\<close>

lemma status_code_notify: "status_code (fst (notify w wd)) \<noteq> 403"
  by (auto simp: notify_def status_code_def Let_def split: option.splits prod.splits sum.splits)

text \<open>
  Claim C1, as amended: the handler does not verify the signature (the call is
  commented out). Its result is the same with any signature header as with none, and
  it never answers 403.
\<close>

theorem handler_does_not_verify:
  "crypto_pay_webhook_handler w raw_body crypto_pay_signature =
     crypto_pay_webhook_handler w raw_body None
   \<and> status_code (fst (crypto_pay_webhook_handler w raw_body crypto_pay_signature)) \<noteq> 403"
  using status_code_notify
  by (auto simp: crypto_pay_webhook_handler_def status_code_def split: sum.splits)

text \<open>
  Claim C1 as stated fails: a request whose header \<^verbatim>\<open>00\<close> is not the digest of its body
  under the secret \<^verbatim>\<open>secret\<close> (verification fails) is parsed, the recipient is notified,
  and the answer is 200.
\<close>

theorem handler_does_not_verify_counterexample:
  "verify_with demo_world (Some (ascii ''secret'')) paid_request (Some (ascii ''00'')) = False
   \<and> crypto_pay_webhook_handler demo_world paid_request (Some (ascii ''00'')) =
       (Returns processed, [(demo_url, PyDict [(ascii ''chat_id'', PyInt 42),
          (ascii ''text'', PyStr paid_text), (ascii ''parse_mode'', PyStr (ascii ''HTML''))])])
   \<and> status_code (Returns processed) = 200"
proof -
  obtain key where key: "encode (ascii ''secret'') = Inr key"
    by (simp add: encode_def encode_cp_def ascii_def)
  have "length (hexdigest (hmac_sha256 demo_world key paid_request)) = 64"
    by (simp add: hexdigest_length demo_world_def)
  moreover have "length (ascii ''00'') = 2"
    by (simp add: ascii_def)
  ultimately have "ascii ''00'' \<noteq> hexdigest (hmac_sha256 demo_world key paid_request)"
    by auto
  moreover have "ascii ''secret'' \<noteq> []" "ascii ''00'' \<noteq> []"
    by (simp_all add: ascii_def)
  ultimately
  have "verify_with demo_world (Some (ascii ''secret'')) paid_request (Some (ascii ''00'')) = False"
    using verify_with_exact_match [OF _ _ key, of "ascii ''00''" demo_world paid_request]
    by simp
  then show ?thesis by (simp add: handler_paid status_code_def)
qed

text \<open>
  Claim C2: every body that is not valid JSON is answered 400 with the detail
  \<^verbatim>\<open>Invalid JSON payload\<close>. The code fails on a body that is not UTF-8: the log line
  before the \<^verbatim>\<open>try\<close> block decodes the body, the \<^verbatim>\<open>UnicodeDecodeError\<close> escapes the
  handler, and the answer is 500.
\<close>

theorem handler_undecodable_body:
  "crypto_pay_webhook_handler w [CHR 0xFF] crypto_pay_signature = (Raises UnicodeDecodeError, [])
   \<and> status_code (Raises UnicodeDecodeError) = 500"
  by (simp add: crypto_pay_webhook_handler_def decode_def status_code_def)

text \<open>On a body that decodes, the two error kinds are as the claim says.\<close>

lemma handler_invalid_json:
  "decode raw_body = Inr body \<Longrightarrow> load_webhook w body = Inl JSONDecodeError \<Longrightarrow>
   crypto_pay_webhook_handler w raw_body sig = (HTTPException 400 (ascii ''Invalid JSON payload''), [])"
  by (simp add: crypto_pay_webhook_handler_def)

lemma handler_invalid_structure:
  "decode raw_body = Inr body \<Longrightarrow> load_webhook w body = Inl e \<Longrightarrow> e \<noteq> JSONDecodeError \<Longrightarrow>
   crypto_pay_webhook_handler w raw_body sig =
     (HTTPException 400 (ascii ''Invalid payload structure: '' @ exn_str w e), [])"
  by (simp add: crypto_pay_webhook_handler_def)

text \<open>
  Claim C3: when the request parses and no recipient can be read from its
  \<open>custom_payload\<close>, the handler returns the soft-error body (status 200) and posts
  nothing.
\<close>

theorem handler_recipient_not_found:
  assumes "decode raw_body = Inr body"
    and "load_webhook w body = Inr webhook_data"
    and "extract_chat_id w (custom_payload (payload webhook_data)) = None"
  shows "crypto_pay_webhook_handler w raw_body crypto_pay_signature = (Returns soft_error, [])"
  using assms by (simp add: crypto_pay_webhook_handler_def notify_def)

theorem handler_recipient_not_found_witness:
  "crypto_pay_webhook_handler demo_world anonymous_request None = (Returns soft_error, [])"
proof -
  have "extract_chat_id demo_world (custom_payload (payload anonymous_webhook)) = None"
    by (simp add: anonymous_webhook_def extract_chat_id_def marker_def ascii_def)
  from handler_recipient_not_found [OF decode_anonymous_request load_anonymous_request this]
  show ?thesis .
qed

text \<open>
  Claim C4: the recipient extractor returns 42 on \<^verbatim>\<open>foo:bar,user_id:42\<close>, nothing on a
  string without the marker, nothing on an absent or empty string; in general, on a
  string whose last marker is followed by \<open>t\<close>, it returns what \<^verbatim>\<open>int(t)\<close> returns and
  nothing where \<^verbatim>\<open>int\<close> raises.
\<close>

theorem extract_chat_id_spec:
  "extract_chat_id w (Some (ascii ''foo:bar,user_id:42'')) = Some 42
   \<and> (\<forall>s. \<not> is_in marker s \<longrightarrow> extract_chat_id w (Some s) = None)
   \<and> extract_chat_id w None = None
   \<and> extract_chat_id w (Some []) = None
   \<and> (\<forall>p t. \<not> is_in marker t \<longrightarrow>
        extract_chat_id w (Some (p @ marker @ t)) =
          (case py_int w t of Inl e \<Rightarrow> None | Inr n \<Rightarrow> Some n))"
proof -
  have "\<forall>s. \<not> is_in marker s \<longrightarrow> extract_chat_id w (Some s) = None"
    by (simp add: extract_chat_id_def)
  moreover have "extract_chat_id w None = None" "extract_chat_id w (Some []) = None"
    by (simp_all add: extract_chat_id_def)
  ultimately show ?thesis
    using extract_after_last_marker extract_paid by blast
qed

theorem extract_chat_id_spec_witness:
  "\<not> is_in marker (ascii ''no marker here'')
   \<and> extract_chat_id demo_world (Some (ascii ''no marker here'')) = None
   \<and> \<not> is_in marker (ascii ''7 '')
   \<and> extract_chat_id demo_world (Some (ascii ''user_id:1,user_id:7 '')) = Some 7
   \<and> \<not> is_in marker (ascii ''4x'')
   \<and> extract_chat_id demo_world (Some (ascii ''user_id:4x'')) = None"
proof -
  have a: "\<not> is_in marker (ascii ''no marker here'')"
    and b: "\<not> is_in marker (ascii ''7 '')"
    and c: "\<not> is_in marker (ascii ''4x'')"
    by (simp_all add: marker_def ascii_def)
  have s: "ascii ''user_id:1,user_id:7 '' = ascii ''user_id:1,'' @ marker @ ascii ''7 ''"
          "ascii ''user_id:4x'' = [] @ marker @ ascii ''4x''"
    by (simp_all add: marker_def ascii_def)
  have i: "py_int demo_world (ascii ''7 '') = Inr 7" "py_int demo_world (ascii ''4x'') = Inl ValueError"
    by (simp_all add: run_defs)
  from extract_chat_id_spec [of demo_world]
  have "extract_chat_id demo_world (Some (ascii ''no marker here'')) = None"
    and "extract_chat_id demo_world (Some (ascii ''user_id:1,'' @ marker @ ascii ''7 '')) = Some 7"
    and "extract_chat_id demo_world (Some ([] @ marker @ ascii ''4x'')) = None"
    using a b c i by (simp_all del: append_Nil)
  then show ?thesis using a b c s by simp
qed

text \<open>
  Claim C10: when the request parses and its \<open>custom_payload\<close> ends in \<^verbatim>\<open>user_id:0\<close>,
  the extraction yields the integer 0, and the handler still returns the soft-error
  body and posts nothing.
\<close>

theorem handler_chat_id_zero:
  assumes "decode raw_body = Inr body"
    and "load_webhook w body = Inr webhook_data"
    and "custom_payload (payload webhook_data) = Some (p @ ascii ''user_id:0'')"
  shows "extract_chat_id w (custom_payload (payload webhook_data)) = Some 0
   \<and> crypto_pay_webhook_handler w raw_body crypto_pay_signature = (Returns soft_error, [])"
proof -
  have "p @ ascii ''user_id:0'' = p @ marker @ [48]"
    by (simp add: marker_def ascii_def)
  then have "extract_chat_id w (custom_payload (payload webhook_data)) = Some 0"
    using assms(3) extract_after_last_marker [OF not_in_zero, of w p] by (simp add: py_int_zero)
  then show ?thesis
    using assms by (simp add: crypto_pay_webhook_handler_def notify_def)
qed

theorem handler_chat_id_zero_witness:
  "extract_chat_id demo_world (custom_payload (payload zero_webhook)) = Some 0
   \<and> crypto_pay_webhook_handler demo_world zero_request None = (Returns soft_error, [])"
proof -
  have "custom_payload (payload zero_webhook) = Some (ascii ''foo:bar,'' @ ascii ''user_id:0'')"
    by (simp add: zero_webhook_def ascii_def)
  from handler_chat_id_zero [OF decode_zero_request load_zero_request this]
  show ?thesis .
qed

section \<open>The notifier\<close>

text \<open>Nothing the handler computes depends on what the endpoint answers.\<close>

lemma to_ascii_frame: "to_ascii (w\<lparr>http_post := post\<rparr>) s = to_ascii w s"
  by (induction s) (auto split: option.splits)

lemma py_int_frame: "py_int (w\<lparr>http_post := post\<rparr>) s = py_int w s"
  by (simp add: py_int_def to_ascii_frame cong: list.case_cong option.case_cong if_cong)

lemma extract_chat_id_frame: "extract_chat_id (w\<lparr>http_post := post\<rparr>) x = extract_chat_id w x"
  by (simp add: extract_chat_id_def py_int_frame
      cong: list.case_cong option.case_cong sum.case_cong if_cong)

lemma upper_cp_frame: "upper_cp (w\<lparr>http_post := post\<rparr>) = upper_cp w"
  by (rule ext) (simp add: upper_cp_def)

lemma notification_text_frame:
  "notification_text (w\<lparr>http_post := post\<rparr>) i st a b = notification_text w i st a b"
  by (simp add: notification_text_def upper_def upper_cp_frame)

lemma int_field_frame: "int_field (w\<lparr>http_post := post\<rparr>) = int_field w"
  by (rule ext) (simp add: int_field_def cong: pyobj.case_cong option.case_cong sum.case_cong)

lemma validate_InvoicePayload_frame:
  "validate_InvoicePayload (w\<lparr>http_post := post\<rparr>) = validate_InvoicePayload w"
  by (rule ext) (simp add: validate_InvoicePayload_def int_field_frame)

lemma model_field_frame: "model_field (w\<lparr>http_post := post\<rparr>) = model_field w"
  by (rule ext) (simp add: model_field_def validate_InvoicePayload_frame cong: pyobj.case_cong option.case_cong sum.case_cong)

lemma new_CryptoPayWebhook_frame:
  "new_CryptoPayWebhook (w\<lparr>http_post := post\<rparr>) = new_CryptoPayWebhook w"
  by (rule ext)
    (simp add: new_CryptoPayWebhook_def validate_CryptoPayWebhook_def int_field_frame model_field_frame
     cong: pyobj.case_cong option.case_cong sum.case_cong)

lemma json_loads_frame: "json_loads (w\<lparr>http_post := post\<rparr>) = json_loads w"
  by (rule ext) (simp add: json_loads_def)

lemma load_webhook_frame: "load_webhook (w\<lparr>http_post := post\<rparr>) body = load_webhook w body"
  by (simp add: load_webhook_def json_loads_frame new_CryptoPayWebhook_frame cong: pyobj.case_cong option.case_cong sum.case_cong)

lemma send_telegram_message_result:
  "\<exists>url request. snd (send_telegram_message w c msg) = [(url, request)]
     \<and> fst (send_telegram_message w c msg) = Inr (\<not> dispatch_failed (http_post w url request))"
  by (auto simp: send_telegram_message_def getattr_def config_def dispatch_failed_def Let_def
      raise_for_status_def split: post_result.splits)

lemma send_telegram_message_posted:
  "snd (send_telegram_message (w\<lparr>http_post := post\<rparr>) c msg) = snd (send_telegram_message w c msg)"
  by (simp add: send_telegram_message_def getattr_def config_def Let_def)

lemma send_telegram_message_returns: "\<exists>sent. fst (send_telegram_message w c msg) = Inr sent"
  using send_telegram_message_result [of w c msg] by blast

lemma notify_found:
  assumes "extract_chat_id w (custom_payload (payload wd)) = Some c" and "c \<noteq> 0"
  shows "notify w wd =
    (Returns processed,
     snd (send_telegram_message w c
       (notification_text w (invoice_id (payload wd)) (status (payload wd))
          (amount (payload wd)) (asset (payload wd)))))"
proof -
  let ?m = "notification_text w (invoice_id (payload wd)) (status (payload wd))
          (amount (payload wd)) (asset (payload wd))"
  obtain r posted where sp: "send_telegram_message w c ?m = (r, posted)"
    by (cases "send_telegram_message w c ?m")
  moreover obtain sent where "r = Inr sent"
    using send_telegram_message_returns [of w c ?m] sp by auto
  ultimately show ?thesis
    using assms by (simp add: notify_def Let_def)
qed

lemma notify_frame: "notify (w\<lparr>http_post := post\<rparr>) wd = notify w wd"
proof (cases "extract_chat_id w (custom_payload (payload wd))")
  case None
  then show ?thesis by (simp add: notify_def extract_chat_id_frame)
next
  case (Some c)
  show ?thesis
  proof (cases "c = 0")
    case True
    with Some show ?thesis by (simp add: notify_def extract_chat_id_frame)
  next
    case False
    from Some have "extract_chat_id (w\<lparr>http_post := post\<rparr>) (custom_payload (payload wd)) = Some c"
      by (simp add: extract_chat_id_frame)
    from notify_found [OF this False] notify_found [OF Some False]
    show ?thesis
      by (simp add: notification_text_frame send_telegram_message_posted)
  qed
qed

lemma handler_frame:
  "crypto_pay_webhook_handler (w\<lparr>http_post := post\<rparr>) raw_body sig =
   crypto_pay_webhook_handler w raw_body sig"
  by (simp add: crypto_pay_webhook_handler_def load_webhook_frame notify_frame
      cong: sum.case_cong if_cong)

text \<open>
  Claim C5, as amended: when the outbound call fails, by a response with a status
  from 400 to 599 or by a request exception, \<^verbatim>\<open>send_telegram_message\<close> returns
  \<^verbatim>\<open>False\<close> (it returns \<^verbatim>\<open>True\<close> on every other response); the handler posts once and
  returns the body \<^verbatim>\<open>{"status": "ok", "message": "Webhook processed"}\<close> all the same,
  and its result is the same whatever the endpoint answers.
\<close>

theorem dispatch_failure_is_not_an_error:
  assumes "decode raw_body = Inr body"
    and "load_webhook w body = Inr webhook_data"
    and "extract_chat_id w (custom_payload (payload webhook_data)) = Some c"
    and "c \<noteq> 0"
  shows "fst (crypto_pay_webhook_handler w raw_body crypto_pay_signature) = Returns processed
   \<and> (\<forall>post. crypto_pay_webhook_handler (w\<lparr>http_post := post\<rparr>) raw_body crypto_pay_signature =
         crypto_pay_webhook_handler w raw_body crypto_pay_signature)
   \<and> (\<forall>msg. \<exists>url request. snd (send_telegram_message w c msg) = [(url, request)]
         \<and> fst (send_telegram_message w c msg) = Inr (\<not> dispatch_failed (http_post w url request)))"
proof -
  have "crypto_pay_webhook_handler w raw_body crypto_pay_signature = notify w webhook_data"
    using assms(1,2) by (simp add: crypto_pay_webhook_handler_def)
  then have "fst (crypto_pay_webhook_handler w raw_body crypto_pay_signature) = Returns processed"
    using notify_found [OF assms(3,4)] by simp
  then show ?thesis
    using handler_frame send_telegram_message_result by blast
qed

lemma load_failing: "load_webhook failing_world body = load_webhook demo_world body"
  by (simp add: failing_world_def load_webhook_frame)

theorem dispatch_failure_is_not_an_error_witness:
  "fst (crypto_pay_webhook_handler failing_world paid_request None) = Returns processed
   \<and> fst (send_telegram_message failing_world 42 paid_text) = Inr False
   \<and> crypto_pay_webhook_handler demo_world paid_request None =
       crypto_pay_webhook_handler failing_world paid_request None"
proof -
  have l: "load_webhook failing_world (ascii paid_request) = Inr paid_webhook"
    by (simp add: load_failing load_paid_request)
  have e: "extract_chat_id failing_world (custom_payload (payload paid_webhook)) = Some 42"
    by (simp add: paid_webhook_def extract_paid)
  have f: "failing_world\<lparr>http_post := http_post demo_world\<rparr> = demo_world"
    by (simp add: failing_world_def demo_world_def)
  have d: "dispatch_failed (http_post failing_world url request)" for url request
    by (simp add: failing_world_def dispatch_failed_def)
  from dispatch_failure_is_not_an_error [OF decode_paid_request l e, of None]
  show ?thesis using f d by (metis zero_neq_numeral)
qed

text \<open>
  Claim C5 as stated fails: on a response that is not 2xx and not an error status
  (here 304), \<^verbatim>\<open>raise_for_status\<close> does not raise and the notifier returns \<^verbatim>\<open>True\<close>.
\<close>

theorem dispatch_failure_counterexample:
  "http_post not_modified_world demo_url
     (PyDict [(ascii ''chat_id'', PyInt 42), (ascii ''text'', PyStr paid_text),
              (ascii ''parse_mode'', PyStr (ascii ''HTML''))]) = Response 304 []
   \<and> send_telegram_message not_modified_world 42 paid_text =
       (Inr True, [(demo_url, PyDict [(ascii ''chat_id'', PyInt 42), (ascii ''text'', PyStr paid_text),
              (ascii ''parse_mode'', PyStr (ascii ''HTML''))])])"
  by (simp add: not_modified_world_def send_telegram_message_def run_defs)

section \<open>The notification text\<close>

lemma is_in_self: "is_in x (p @ x @ s)"
  by (simp add: is_in_sublist)

text \<open>
  Claim C6, as amended: for the status \<^verbatim>\<open>paid\<close> with an amount and an asset that are
  both present and not empty, the text holds the amount, the asset and the check
  mark; with either of them absent or empty it is the success text without them; for
  the status \<^verbatim>\<open>expired\<close> it is the expiry text with the hourglass, whatever the
  amount and the asset; for any other status it is the generic text with the status
  upper-cased.
\<close>

theorem notification_text_spec:
  "(a \<noteq> [] \<and> b \<noteq> [] \<longrightarrow>
      notification_text w i (ascii ''paid'') (Some a) (Some b) =
        paid_amount_head @ a @ [32] @ b @ invoice_open @ str_int i @ paid_tail
      \<and> is_in a (notification_text w i (ascii ''paid'') (Some a) (Some b))
      \<and> is_in b (notification_text w i (ascii ''paid'') (Some a) (Some b))
      \<and> is_in [9989] (notification_text w i (ascii ''paid'') (Some a) (Some b)))
   \<and> (\<not> (truthy x \<and> truthy y) \<longrightarrow>
      notification_text w i (ascii ''paid'') x y = paid_head @ str_int i @ paid_tail)
   \<and> notification_text w i (ascii ''expired'') x y = expired_head @ str_int i @ expired_tail
   \<and> is_in [8987] (notification_text w i (ascii ''expired'') x y)
   \<and> (st \<noteq> ascii ''paid'' \<and> st \<noteq> ascii ''expired'' \<longrightarrow>
      notification_text w i st x y =
        generic_head @ str_int i @ generic_mid @ upper w st @ generic_tail)"
proof -
  let ?m = "paid_amount_head @ a @ [32] @ b @ invoice_open @ str_int i @ paid_tail"
  have "is_in a ?m"
    using is_in_self [of a paid_amount_head] by simp
  moreover have "is_in b ?m"
    using is_in_self [of b "paid_amount_head @ a @ [32]"] by simp
  moreover have "is_in [9989] ?m"
    using is_in_self [of "[9989]" "[]"] by (simp add: paid_amount_head_def)
  moreover have "is_in [8987] (expired_head @ str_int i @ expired_tail)"
    using is_in_self [of "[8987]" "[]"] by (simp add: expired_head_def)
  moreover have "ascii ''expired'' \<noteq> ascii ''paid''"
    by (simp add: ascii_def)
  ultimately show ?thesis
    by (simp add: notification_text_def truthy_def format_opt_def)
qed

theorem notification_text_spec_witness:
  "notification_text demo_world 7 (ascii ''paid'') (Some (ascii ''10.5'')) (Some (ascii ''TON''))
     = paid_amount_head @ ascii ''10.5 TON'' @ invoice_open @ ascii ''7'' @ paid_tail
   \<and> notification_text demo_world 7 (ascii ''paid'') (Some (ascii ''10.5'')) None
     = paid_head @ ascii ''7'' @ paid_tail
   \<and> notification_text demo_world 7 (ascii ''refunded'') (Some (ascii ''10.5'')) (Some (ascii ''TON''))
     = generic_head @ ascii ''7'' @ generic_mid @ ascii ''REFUNDED'' @ generic_tail"
proof -
  have n: "ascii ''10.5'' \<noteq> []" "ascii ''TON'' \<noteq> []" "\<not> (truthy (Some (ascii ''10.5'')) \<and> truthy None)"
    "ascii ''refunded'' \<noteq> ascii ''paid''" "ascii ''refunded'' \<noteq> ascii ''expired''"
    by (simp_all add: ascii_def truthy_def)
  have u: "upper demo_world (ascii ''refunded'') = ascii ''REFUNDED''" "str_int 7 = ascii ''7''"
    by (simp_all add: run_defs)
  from notification_text_spec [of "ascii ''10.5''" "ascii ''TON''" demo_world 7 "Some (ascii ''10.5'')" None "ascii ''refunded''"]
    notification_text_spec [of "ascii ''10.5''" "ascii ''TON''" demo_world 7 "Some (ascii ''10.5'')" "Some (ascii ''TON'')" "ascii ''refunded''"]
  show ?thesis using n u by (simp add: ascii_def)
qed

text \<open>
  Claim C6 as stated fails: with the amount \<^verbatim>\<open>10.5\<close> present and the asset present but
  empty, the text for \<^verbatim>\<open>paid\<close> does not hold the amount.
\<close>

theorem notification_text_counterexample:
  "notification_text demo_world 7 (ascii ''paid'') (Some (ascii ''10.5'')) (Some [])
     = paid_head @ ascii ''7'' @ paid_tail
   \<and> \<not> is_in (ascii ''10.5'') (paid_head @ ascii ''7'' @ paid_tail)"
  by (simp add: notification_text_def truthy_def str_int_def ascii_def paid_head_def paid_tail_def)

section \<open>The payload parser\<close>

lemma int_field_spec: "spec_int x \<Longrightarrow> at name (required (int_field w) x) = Inr (int_of x)"
  by (auto simp: spec_int_def at_def required_def int_field_def int_of_def
      split: option.splits pyobj.splits)

lemma str_field_spec: "spec_str x \<Longrightarrow> at name (required str_field x) = Inr (str_of x)"
  by (auto simp: spec_str_def at_def required_def str_field_def str_of_def
      split: option.splits pyobj.splits)

lemma optional_str_field_spec:
  "spec_optional_str x \<Longrightarrow> at name (optional_str_field x) = Inr (optional_str_of x)"
  by (auto simp: spec_optional_str_def at_def optional_str_field_def str_field_def optional_str_of_def
      split: option.splits pyobj.splits)

lemma validate_InvoicePayload_spec:
  "spec_invoice_schema (Some (PyDict p)) \<Longrightarrow> validate_InvoicePayload w p = Inr (spec_invoice_record p)"
  by (simp add: spec_invoice_schema_def validate_InvoicePayload_def spec_invoice_record_def
      int_field_spec str_field_spec optional_str_field_spec)

lemma model_field_spec:
  "spec_invoice_schema x \<Longrightarrow> model_field w x = Inr (spec_invoice_record (dict_of x))"
proof -
  assume a: "spec_invoice_schema x"
  then obtain p where x: "x = Some (PyDict p)"
    by (auto simp: spec_invoice_schema_def split: option.splits pyobj.splits)
  with a show ?thesis
    by (simp add: model_field_def dict_of_def validate_InvoicePayload_spec)
qed

lemma new_CryptoPayWebhook_spec:
  "spec_schema v \<Longrightarrow> new_CryptoPayWebhook w v = Inr (spec_record v)"
proof -
  assume a: "spec_schema v"
  then obtain d where v: "v = PyDict d"
    by (auto simp: spec_schema_def split: pyobj.splits)
  with a show ?thesis
    by (simp add: spec_schema_def new_CryptoPayWebhook_def validate_CryptoPayWebhook_def
        spec_record_def dict_of_def int_field_spec str_field_spec model_field_spec)
qed

text \<open>
  Claim C9, as amended: for every body that \<^verbatim>\<open>json.loads\<close> decodes to a value of the
  documented shape, the model is built and is the documented record; its
  \<open>custom_payload\<close> is the value under the key \<^verbatim>\<open>payload\<close> of the invoice object. The
  \<^verbatim>\<open>try\<close> block as a whole yields the same record where the dump for the log line does
  not raise.
\<close>

theorem webhook_parses:
  assumes "json_loads w body = Inr (PyDict d)"
    and "spec_schema (PyDict d)"
    and "dict_get d (ascii ''payload'') = Some (PyDict p)"
  shows "new_CryptoPayWebhook w (PyDict d) = Inr (spec_record (PyDict d))
   \<and> custom_payload (payload (spec_record (PyDict d))) = optional_str_of (dict_get p (ascii ''payload''))
   \<and> (model_dump_json (spec_record (PyDict d)) = Inr () \<longrightarrow>
        load_webhook w body = Inr (spec_record (PyDict d)))"
  using assms new_CryptoPayWebhook_spec [OF assms(2), of w]
  by (simp add: load_webhook_def spec_record_def dict_of_def spec_invoice_record_def)

lemma json_paid_request: "json_loads demo_world (ascii paid_request) = Inr paid_json"
  by (simp add: paid_request_def paid_json_def run_defs)

theorem webhook_parses_witness:
  "json_loads demo_world (ascii paid_request) = Inr paid_json
   \<and> spec_schema paid_json
   \<and> new_CryptoPayWebhook demo_world paid_json = Inr paid_webhook
   \<and> custom_payload (payload paid_webhook) = Some (ascii ''foo:bar,user_id:42'')
   \<and> load_webhook demo_world (ascii paid_request) = Inr paid_webhook"
proof -
  let ?d = "[(ascii ''update_id'', PyInt 1), (ascii ''update_type'', PyStr (ascii ''invoice_paid'')),
       (ascii ''request_date'', PyStr (ascii ''2024-01-01T00:00:00Z'')),
       (ascii ''payload'', PyDict [(ascii ''invoice_id'', PyInt 7), (ascii ''status'', PyStr (ascii ''paid'')),
          (ascii ''amount'', PyStr (ascii ''10.5'')), (ascii ''asset'', PyStr (ascii ''TON'')),
          (ascii ''payload'', PyStr (ascii ''foo:bar,user_id:42''))])]"
  let ?p = "[(ascii ''invoice_id'', PyInt 7), (ascii ''status'', PyStr (ascii ''paid'')),
          (ascii ''amount'', PyStr (ascii ''10.5'')), (ascii ''asset'', PyStr (ascii ''TON'')),
          (ascii ''payload'', PyStr (ascii ''foo:bar,user_id:42''))]"
  have j: "json_loads demo_world (ascii paid_request) = Inr (PyDict ?d)"
    using json_paid_request by (simp add: paid_json_def)
  have s: "spec_schema (PyDict ?d)"
    by (simp add: spec_schema_def spec_invoice_schema_def spec_int_def spec_str_def
        spec_optional_str_def ascii_def)
  have g: "dict_get ?d (ascii ''payload'') = Some (PyDict ?p)"
    by (simp add: ascii_def)
  have r: "spec_record (PyDict ?d) = paid_webhook"
    by (simp add: spec_record_def spec_invoice_record_def dict_of_def int_of_def str_of_def
        optional_str_of_def paid_webhook_def ascii_def)
  have m: "model_dump_json paid_webhook = Inr ()"
    by (simp add: paid_webhook_def run_defs)
  have o: "optional_str_of (dict_get ?p (ascii ''payload'')) = Some (ascii ''foo:bar,user_id:42'')"
    by (simp add: optional_str_of_def ascii_def)
  from webhook_parses [OF j s g]
  show ?thesis using j s r m o by (simp add: paid_json_def)
qed

text \<open>The two further bodies, decoded and loaded.\<close>

lemma length_long_digits: "length long_digits = 4300"
  by (simp add: long_digits_def)

lemma takeWhile_replicate_append:
  "P x \<Longrightarrow> takeWhile P (replicate n x @ r) = replicate n x @ takeWhile P r"
  by (induction n) auto

lemma dropWhile_replicate_append: "P x \<Longrightarrow> dropWhile P (replicate n x @ r) = dropWhile P r"
  by (induction n) auto

lemma takeWhile_long_digits: "takeWhile is_digit (long_digits @ r) = long_digits @ takeWhile is_digit r"
  unfolding long_digits_def by (rule takeWhile_replicate_append) (simp add: is_digit_def)

lemma dropWhile_long_digits: "dropWhile is_digit (long_digits @ r) = dropWhile is_digit r"
  unfolding long_digits_def by (rule dropWhile_replicate_append) (simp add: is_digit_def)

lemma digits_value_single: "digits_value [c] = c - 48"
  by (simp add: digits_value_def)

lemma ascii_long_integer_request:
  \<open>ascii long_integer_request =
     ascii ''{"update_id": 1'' @ long_digits @ ascii '', "update_type": "invoice_paid", "request_date": "2024-01-01T00:00:00Z", "payload": {"invoice_id": 7, "status": "paid"}}''\<close>
  by (simp add: long_integer_request_def ascii_def long_digits_def)

lemma json_long_integer_limited:
  "json_loads demo_world (ascii long_integer_request) = Inl ValueError"
  unfolding ascii_long_integer_request
  by (simp add: demo_world_def ascii_def parse_defs takeWhile_long_digits dropWhile_long_digits
      length_long_digits)

lemma json_long_integer_unlimited:
  "json_loads unlimited_world (ascii long_integer_request) = Inr long_integer_json"
  unfolding ascii_long_integer_request
  by (simp add: unlimited_world_def demo_world_def long_integer_json_def ascii_def parse_defs
      takeWhile_long_digits dropWhile_long_digits length_long_digits digits_value_single)

lemma json_surrogate_request:
  "json_loads demo_world (ascii surrogate_request) = Inr surrogate_json"
  by (simp add: surrogate_request_def surrogate_json_def demo_world_def ascii_def parse_defs
      digits_value_def)

lemma utf8_replicate:
  "c < 128 \<Longrightarrow> utf8 (replicate n c @ r) = map_option ((@) (replicate n c)) (utf8 r)"
proof (induction n)
  case 0
  show ?case by (cases "utf8 r") simp_all
next
  case (Suc n)
  then show ?case by (cases "utf8 r") simp_all
qed

lemma decode_long_integer_request: "decode long_integer_request = Inr (ascii long_integer_request)"
  by (simp add: long_integer_request_def decode_def ascii_def utf8_replicate)

lemma decode_surrogate_request: "decode surrogate_request = Inr (ascii surrogate_request)"
  by (simp add: surrogate_request_def decode_def ascii_def)

lemma spec_schema_surrogate_json: "spec_schema surrogate_json"
  by (simp add: surrogate_json_def spec_schema_def spec_invoice_schema_def spec_int_def spec_str_def
      spec_optional_str_def ascii_def)

lemma spec_schema_long_integer_json: "spec_schema long_integer_json"
  by (simp add: long_integer_json_def spec_schema_def spec_invoice_schema_def spec_int_def
      spec_str_def spec_optional_str_def ascii_def)

lemma load_surrogate_request:
  "load_webhook demo_world (ascii surrogate_request) = Inl PydanticSerializationError"
proof -
  have "model_dump_json (spec_record surrogate_json) = Inl PydanticSerializationError"
    by (simp add: surrogate_json_def spec_record_def spec_invoice_record_def dict_of_def
        int_of_def str_of_def optional_str_of_def model_dump_json_def encodable_def
        encodable_opt_def encode_cp_def ascii_def)
  then show ?thesis
    using new_CryptoPayWebhook_spec [OF spec_schema_surrogate_json, of demo_world]
    by (simp add: load_webhook_def json_surrogate_request)
qed

lemma load_long_integer_request:
  "load_webhook demo_world (ascii long_integer_request) = Inl ValueError"
  by (simp add: load_webhook_def json_long_integer_limited)

text \<open>
  Claim C9 as stated, for every valid JSON body of the documented shape, fails. The
  body whose \<^verbatim>\<open>description\<close> is a surrogate alone is decoded and has the shape, and
  the \<^verbatim>\<open>try\<close> block raises on it. The body whose \<^verbatim>\<open>update_id\<close> has 4301 digits has
  the shape where the runtime sets no limit, and \<^verbatim>\<open>json.loads\<close> raises \<^verbatim>\<open>ValueError\<close>
  on it under the default limit of 4300 digits. The handler answers both with 400.
\<close>

theorem webhook_parses_counterexample:
  "json_loads demo_world (ascii surrogate_request) = Inr surrogate_json
   \<and> spec_schema surrogate_json
   \<and> load_webhook demo_world (ascii surrogate_request) = Inl PydanticSerializationError
   \<and> crypto_pay_webhook_handler demo_world surrogate_request None =
       (HTTPException 400
          (ascii ''Invalid payload structure: '' @ exn_str demo_world PydanticSerializationError), [])
   \<and> json_loads unlimited_world (ascii long_integer_request) = Inr long_integer_json
   \<and> spec_schema long_integer_json
   \<and> json_loads demo_world (ascii long_integer_request) = Inl ValueError
   \<and> crypto_pay_webhook_handler demo_world long_integer_request None =
       (HTTPException 400 (ascii ''Invalid payload structure: '' @ exn_str demo_world ValueError), [])"
  by (simp add: json_surrogate_request spec_schema_surrogate_json load_surrogate_request
      json_long_integer_unlimited spec_schema_long_integer_json json_long_integer_limited
      load_long_integer_request crypto_pay_webhook_handler_def decode_surrogate_request
      decode_long_integer_request)

end
